theory Spec2Isabelle
  imports Main "HOL-Library.Word"
begin

unbundle bit_operations_syntax

section \<open>The Docker box of the pipeline runner (docker/box.go)\<close>

text \<open>
  The theory embeds \<^verbatim>\<open>src/docker/box.go\<close>. A Go string is a byte sequence, here a
  \<^typ>\<open>string\<close>. A Go \<^verbatim>\<open>error\<close> is a value of the datatype \<open>error\<close>; a function
  returning \<^verbatim>\<open>(x, err)\<close> returns \<open>Inl err\<close> or \<open>Inr x\<close>, one returning only an error
  returns an \<open>error option\<close> (\<open>None\<close> is \<^verbatim>\<open>nil\<close>). A pointer that may be \<^verbatim>\<open>nil\<close> is
  an \<open>option\<close>, and dereferencing \<^verbatim>\<open>nil\<close> is the outcome \<open>Panics\<close>.

  The container engine, the file system and the service boxes live outside the file. They
  are an arbitrary world \<open>'w\<close>: every engine call and every method of a service is a
  function that takes the world and returns its result with the next world.
\<close>

subsection \<open>Errors, outcomes and log entries\<close>

text \<open>
  \<open>ContainerNotRunning\<close> is the engine's error type \<^verbatim>\<open>*docker.ContainerNotRunning\<close>, which
  \<^verbatim>\<open>Stop\<close> recognises by a type assertion; \<open>Errorf\<close> is an error made by \<^verbatim>\<open>fmt.Errorf\<close>;
  \<open>OtherError\<close> is any other error value.
\<close>

datatype error = ContainerNotRunning string | Errorf string | OtherError string

datatype 'a outcome = Panics | Returns 'a

datatype Level = Debug | Info | Warn | Error | Panic

datatype FieldValue = FString string | FError error

datatype LogEntry = LogEntry (level: Level) (fields: "(string \<times> FieldValue) list") (message: string)

subsection \<open>Library functions of Go\<close>

text \<open>\<^verbatim>\<open>strings.Split(s, sep)\<close> for a separator of one byte: never empty, one field more than
  there are separators.\<close>

fun Split :: "string \<Rightarrow> char \<Rightarrow> string list" where
  "Split [] sep = [[]]"
| "Split (c # cs) sep =
     (if c = sep then [] # Split cs sep
      else (case Split cs sep of [] \<Rightarrow> [[c]] | p # ps \<Rightarrow> (c # p) # ps))"

text \<open>\<^verbatim>\<open>strings.Contains(s, sep)\<close> for a separator of one byte.\<close>

definition Contains :: "string \<Rightarrow> char \<Rightarrow> bool" where
  "Contains s sep = (sep \<in> set s)"

text \<open>\<^verbatim>\<open>fmt.Sprintln\<close> of strings, as the logger's \<^verbatim>\<open>Debugln\<close> uses it: the operands
  separated by single spaces (the logger drops the final newline).\<close>

fun Sprintln :: "string list \<Rightarrow> string" where
  "Sprintln [] = []"
| "Sprintln [x] = x"
| "Sprintln (x # y # ys) = x @ '' '' @ Sprintln (y # ys)"

text \<open>A slice of strings printed by \<^verbatim>\<open>%v\<close>: \<^verbatim>\<open>[a b c]\<close>.\<close>

definition SprintSlice :: "string list \<Rightarrow> string" where
  "SprintSlice xs = ''['' @ Sprintln xs @ '']''"

subsection \<open>The data model\<close>

record Container =
  Container_ID :: string
  Container_Name :: string

record Image =
  Image_ID :: string

record BoxConfig =
  BoxConfig_ID :: string
  BoxConfig_Tag :: string
  BoxConfig_Cmd :: string
  BoxConfig_Entrypoint :: string
  BoxConfig_Env :: "(string \<times> string) list"
  BoxConfig_Username :: string
  BoxConfig_Password :: string
  BoxConfig_Registry :: string

text \<open>\<^verbatim>\<open>core.PipelineOptions\<close>: the fields and the path methods that the box reads.
  \<^verbatim>\<open>HostPath\<close>, \<^verbatim>\<open>GuestPath\<close> and \<^verbatim>\<open>MntPath\<close> are variadic in the source.\<close>

record PipelineOptions =
  PipelineID :: string
  DirectMount :: bool
  ShouldCommit :: bool
  PublishPorts :: "string list"
  HostPath :: "string list \<Rightarrow> string"
  GuestPath :: "string list \<Rightarrow> string"
  MntPath :: "string list \<Rightarrow> string"

record DockerOptions =
  DockerLocal :: bool
  DockerDNS :: "string list"

text \<open>\<^verbatim>\<open>util.Environment\<close>: only its interpolation is used.\<close>

record Environment =
  Interpolate :: "string \<Rightarrow> string"

text \<open>\<^verbatim>\<open>context.Context\<close>: the box itself only asks it for the event emitter
  (\<^verbatim>\<open>core.EmitterFromContext\<close>).\<close>

datatype Emitter = NormalizedEmitter

record Context =
  EmitterFromContext :: "error + Emitter"

record PortBinding =
  HostIP :: string
  HostPort :: string

type_synonym PortMap = "string \<rightharpoonup> PortBinding list"

record Config =
  Config_Image :: string
  Tty :: bool
  OpenStdin :: bool
  Config_Cmd :: "string list"
  Config_Env :: "string list"
  AttachStdin :: bool
  AttachStdout :: bool
  AttachStderr :: bool
  ExposedPorts :: "string set"
  NetworkDisabled :: bool
  Config_DNS :: "string list"
  Config_Entrypoint :: "string list option"

record CreateContainerOptions =
  CreateContainerOptions_Name :: string
  CreateContainerOptions_Config :: Config

record HostConfig =
  Binds :: "string list"
  Links :: "string list"
  PortBindings :: PortMap
  HostConfig_DNS :: "string list"

record RemoveContainerOptions =
  RemoveContainerOptions_ID :: string
  RemoveVolumes :: bool
  Force :: bool

record AuthConfiguration =
  Username :: string
  Password :: string

record CheckAccessOptions =
  Auth :: AuthConfiguration
  Access :: string
  CheckAccessOptions_Repository :: string
  Registry :: string

text \<open>The output stream of a pull is a pipe read by the status emitter; it carries no result
  of \<^verbatim>\<open>Fetch\<close> and is left out of the options.\<close>

record PullImageOptions =
  RawJSONStream :: bool
  PullImageOptions_Repository :: string
  PullImageOptions_Tag :: string

record CommitContainerOptions =
  CommitContainerOptions_Container :: string
  CommitContainerOptions_Repository :: string
  CommitContainerOptions_Tag :: string
  Message :: string
  Author :: string

text \<open>An entry of \<^verbatim>\<open>ioutil.ReadDir\<close>: its name, \<^verbatim>\<open>IsDir()\<close> and the mode bits.\<close>

record FileInfo =
  FileInfo_Name :: string
  IsDir :: bool
  Mode :: "32 word"

definition ModeSymlink :: "32 word" where
  "ModeSymlink = push_bit 27 1"

text \<open>
  The engine client (\<^verbatim>\<open>*DockerClient\<close>), as the calls the box makes. A call that returns a
  handle and a \<^verbatim>\<open>nil\<close> error returns a handle that is not \<^verbatim>\<open>nil\<close>.
\<close>

record 'w DockerClient =
  CreateContainer :: "CreateContainerOptions \<Rightarrow> 'w \<Rightarrow> (error + Container) \<times> 'w"
  StartContainer :: "string \<Rightarrow> HostConfig \<Rightarrow> 'w \<Rightarrow> error option \<times> 'w"
  StopContainer :: "string \<Rightarrow> nat \<Rightarrow> 'w \<Rightarrow> error option \<times> 'w"
  RestartContainer :: "string \<Rightarrow> nat \<Rightarrow> 'w \<Rightarrow> error option \<times> 'w"
  RemoveContainer :: "RemoveContainerOptions \<Rightarrow> 'w \<Rightarrow> error option \<times> 'w"
  RemoveImage :: "string \<Rightarrow> 'w \<Rightarrow> error option \<times> 'w"
  CheckAccess :: "CheckAccessOptions \<Rightarrow> 'w \<Rightarrow> (error + bool) \<times> 'w"
  PullImage :: "PullImageOptions \<Rightarrow> AuthConfiguration \<Rightarrow> 'w \<Rightarrow> error option \<times> 'w"
  InspectImage :: "string \<Rightarrow> 'w \<Rightarrow> (error + Image) \<times> 'w"
  CommitContainer :: "CommitContainerOptions \<Rightarrow> 'w \<Rightarrow> (error + Image) \<times> 'w"

text \<open>
  \<^verbatim>\<open>core.ServiceBox\<close> is an interface; a service is its method table. \<^verbatim>\<open>Run\<close> changes the
  world; \<^verbatim>\<open>GetName\<close>, \<^verbatim>\<open>GetID\<close> and \<^verbatim>\<open>Link\<close> read it.
\<close>

record 'w ServiceBox =
  svc_GetName :: "'w \<Rightarrow> string"
  svc_GetID :: "'w \<Rightarrow> string"
  svc_Link :: "'w \<Rightarrow> string"
  svc_Run :: "Context \<Rightarrow> Environment \<Rightarrow> string list \<Rightarrow> 'w \<Rightarrow> (error + Container) \<times> 'w"

text \<open>Functions of other packages that \<^verbatim>\<open>Run\<close> calls: \<^verbatim>\<open>shlex.Split\<close>,
  \<^verbatim>\<open>strings.ToUpper\<close> and \<^verbatim>\<open>ioutil.ReadDir\<close>.\<close>

record 'w Lib =
  shlex_Split :: "string \<Rightarrow> error + string list"
  ToUpper :: "string \<Rightarrow> string"
  ReadDir :: "string \<Rightarrow> 'w \<Rightarrow> (error + FileInfo list) \<times> 'w"

text \<open>The box. \<open>logger\<close> holds the entries written through \<^verbatim>\<open>b.logger\<close>, oldest first.\<close>

record 'w DockerBox =
  Name :: string
  ShortName :: string
  networkDisabled :: bool
  client :: "'w DockerClient"
  services :: "'w ServiceBox list"
  options :: PipelineOptions
  dockerOptions :: DockerOptions
  container :: "Container option"
  config :: BoxConfig
  cmd :: string
  repository :: string
  tag :: string
  images :: "Image list"
  logger :: "LogEntry list"
  entrypoint :: string
  box_image :: "Image option"
  volumes :: "string list"

subsection \<open>NewDockerBox\<close>

text \<open>\<^verbatim>\<open>NewDockerClient\<close> is outside the file and is a parameter. \<^verbatim>\<open>parts[0]\<close> exists since
  \<^verbatim>\<open>strings.Split\<close> never returns an empty slice.\<close>

definition NewDockerBox ::
  "(DockerOptions \<Rightarrow> error + 'w DockerClient) \<Rightarrow> BoxConfig \<Rightarrow> PipelineOptions \<Rightarrow> DockerOptions
     \<Rightarrow> error + 'w DockerBox" where
  "NewDockerBox NewDockerClient boxConfig opts dockerOpts =
     (let name = BoxConfig_ID boxConfig in
      if Contains name CHR ''@''
      then Inl (Errorf ''Invalid box name, '@' is not allowed in docker repositories.'')
      else
        let parts = Split name CHR '':'';
            repository = hd parts;
            tag = ''latest'';
            tag = (if length parts > 1 then parts ! 1 else tag);
            tag = (if BoxConfig_Tag boxConfig \<noteq> [] then BoxConfig_Tag boxConfig else tag);
            name = repository @ '':'' @ tag;
            repoParts = Split repository CHR ''/'';
            shortName = repository;
            shortName = (if length repoParts > 1 then repoParts ! (length repoParts - 1)
                         else shortName);
            networkDisabled = False;
            cmd = BoxConfig_Cmd boxConfig;
            cmd = (if cmd = [] then ''/bin/bash'' else cmd);
            entrypoint = BoxConfig_Entrypoint boxConfig
        in case NewDockerClient dockerOpts of
             Inl err \<Rightarrow> Inl err
           | Inr cl \<Rightarrow>
               Inr \<lparr> Name = name, ShortName = shortName, networkDisabled = networkDisabled,
                     client = cl, services = [], options = opts, dockerOptions = dockerOpts,
                     container = None, config = boxConfig, cmd = cmd,
                     repository = repository, tag = tag, images = [], logger = [],
                     entrypoint = entrypoint, box_image = None,
                     volumes = [''/var/run/docker.sock'', ''/usr/local/bin/docker''] \<rparr>)"

subsection \<open>Getters\<close>

definition GetName :: "'w DockerBox \<Rightarrow> string" where
  "GetName b = Name b"

definition GetTag :: "'w DockerBox \<Rightarrow> string" where
  "GetTag b = tag b"

definition GetID :: "'w DockerBox \<Rightarrow> string" where
  "GetID b = (case container b of Some c \<Rightarrow> Container_ID c | None \<Rightarrow> [])"

text \<open>\<^verbatim>\<open>Link\<close> dereferences the container handle without a check.\<close>

definition Link :: "'w DockerBox \<Rightarrow> string outcome" where
  "Link b = (case container b of None \<Rightarrow> Panics
             | Some c \<Rightarrow> Returns (Container_Name c @ '':'' @ ShortName b))"

subsection \<open>portBindings\<close>

text \<open>The body of the loop of \<^verbatim>\<open>portBindings\<close> for one publish spec: the key and the
  binding it stores. With more than three fields no case of the \<^verbatim>\<open>switch\<close> applies and
  the three variables keep their zero value.\<close>

definition portBinding1 :: "string \<Rightarrow> string \<times> PortBinding" where
  "portBinding1 portdef =
     (let parts = Split portdef CHR '':'';
          (ip, hostPort, containerPort) =
            (if length parts = 3 then (parts ! 0, parts ! 1, parts ! 2)
             else if length parts = 2 then ([], parts ! 0, parts ! 1)
             else if length parts = 1 then ([], parts ! 0, parts ! 0)
             else ([], [], []));
          containerPort = (if \<not> Contains containerPort CHR ''/'' then containerPort @ ''/tcp''
                           else containerPort);
          hostPort = (if hostPort = [] then containerPort else hostPort);
          hostParts = Split hostPort CHR ''/'';
          hostPort = hd hostParts;
          portBinding = \<lparr> HostIP = [], HostPort = hostPort \<rparr>;
          portBinding = (if ip \<noteq> [] then portBinding \<lparr> HostIP := ip \<rparr> else portBinding)
      in (containerPort, portBinding))"

fun portBindings_loop :: "PortMap \<Rightarrow> string list \<Rightarrow> PortMap" where
  "portBindings_loop outer [] = outer"
| "portBindings_loop outer (portdef # published) =
     (let (containerPort, portBinding) = portBinding1 portdef
      in portBindings_loop (outer(containerPort \<mapsto> [portBinding])) published)"

definition portBindings :: "string list \<Rightarrow> PortMap" where
  "portBindings published = portBindings_loop Map.empty published"

definition exposedPorts :: "string list \<Rightarrow> string set" where
  "exposedPorts published = dom (portBindings published)"

subsection \<open>Logging\<close>

text \<open>\<^verbatim>\<open>b.logger.WithFields(fs).Debugln(xs...)\<close> and its siblings append one entry.\<close>

definition logln ::
  "Level \<Rightarrow> (string \<times> FieldValue) list \<Rightarrow> string list \<Rightarrow> 'w DockerBox \<Rightarrow> 'w DockerBox" where
  "logln lvl fs xs b = b \<lparr> logger := logger b @ [LogEntry lvl fs (Sprintln xs)] \<rparr>"

subsection \<open>links, binds, RunServices, dockerEnv\<close>

definition links :: "'w DockerBox \<Rightarrow> 'w \<Rightarrow> string list \<times> 'w DockerBox" where
  "links b w =
     (let serviceLinks = map (\<lambda>service. svc_Link service w) (services b);
          b = logln Debug [] [''Creating links:'', SprintSlice serviceLinks] b
      in (serviceLinks, b))"

fun binds_entries :: "PipelineOptions \<Rightarrow> string list \<Rightarrow> FileInfo list \<Rightarrow> string list" where
  "binds_entries opts binds [] = binds"
| "binds_entries opts binds (entry # entries) =
     (if IsDir entry \<or> Mode entry AND ModeSymlink = ModeSymlink
      then (if DirectMount opts
            then binds_entries opts
                   (binds @ [HostPath opts [FileInfo_Name entry] @ '':'' @
                             GuestPath opts [FileInfo_Name entry] @ '':rw'']) entries
            else binds_entries opts
                   (binds @ [HostPath opts [FileInfo_Name entry] @ '':'' @
                             MntPath opts [FileInfo_Name entry]]) entries)
      else binds_entries opts binds entries)"

definition binds :: "'w Lib \<Rightarrow> 'w DockerBox \<Rightarrow> 'w \<Rightarrow> (error + string list) \<times> 'w" where
  "binds lib b w =
     (case ReadDir lib (HostPath (options b) []) w of
        (Inl err, w) \<Rightarrow> (Inl err, w)
      | (Inr entries, w) \<Rightarrow>
          (let binds = binds_entries (options b) [] entries;
               binds = binds @ map (\<lambda>volume. volume @ '':'' @ volume) (volumes b)
           in (Inr binds, w)))"

text \<open>The loop of \<^verbatim>\<open>RunServices\<close>, with its local variable \<^verbatim>\<open>links\<close>.\<close>

fun RunServices_loop ::
  "Context \<Rightarrow> Environment \<Rightarrow> 'w DockerBox \<Rightarrow> string list \<Rightarrow> 'w ServiceBox list \<Rightarrow> 'w
     \<Rightarrow> error option \<times> 'w DockerBox \<times> 'w" where
  "RunServices_loop ctx env b lnks [] w = (None, b, w)"
| "RunServices_loop ctx env b lnks (service # rest) w =
     (let b = logln Debug [] [''Startinq service:'', svc_GetName service w] b
      in case svc_Run service ctx env lnks w of
           (Inl err, w) \<Rightarrow> (Some err, b, w)
         | (Inr c, w) \<Rightarrow> RunServices_loop ctx env b (lnks @ [svc_Link service w]) rest w)"

definition RunServices ::
  "'w DockerBox \<Rightarrow> Context \<Rightarrow> Environment \<Rightarrow> 'w \<Rightarrow> error option \<times> 'w DockerBox \<times> 'w" where
  "RunServices b ctx env w = RunServices_loop ctx env b [] (services b) w"

text \<open>The source ranges over a Go map, whose order of iteration is not fixed; the
  association list is the map in the order of that iteration.\<close>

definition dockerEnv :: "'w Lib \<Rightarrow> (string \<times> string) list \<Rightarrow> Environment \<Rightarrow> string list" where
  "dockerEnv lib boxEnv env = map (\<lambda>(k, v). ToUpper lib k @ ''='' @ Interpolate env v) boxEnv"

definition getContainerName :: "'w DockerBox \<Rightarrow> string" where
  "getContainerName b = ''wercker-pipeline-'' @ PipelineID (options b)"

subsection \<open>Run\<close>

text \<open>The result of \<^verbatim>\<open>client.StartContainer\<close> is dropped by the source: the call is a
  statement, its error is bound to nothing.\<close>

definition Run ::
  "'w Lib \<Rightarrow> 'w DockerBox \<Rightarrow> Context \<Rightarrow> Environment \<Rightarrow> 'w
     \<Rightarrow> (error + Container) \<times> 'w DockerBox \<times> 'w" where
  "Run lib b ctx env w =
     (case RunServices b ctx env w of
        (Some err, b, w) \<Rightarrow> (Inl err, b, w)
      | (None, b, w) \<Rightarrow>
          (let b = logln Debug [] [''Starting base box:'', Name b] b;
               myEnv = dockerEnv lib (BoxConfig_Env (config b)) env
           in case (if entrypoint b \<noteq> []
                    then map_sum id Some (shlex_Split lib (entrypoint b))
                    else Inr None) of
                Inl err \<Rightarrow> (Inl err, b, w)
              | Inr entrypoint' \<Rightarrow>
                 (case shlex_Split lib (cmd b) of
                    Inl err \<Rightarrow> (Inl err, b, w)
                  | Inr cmd' \<Rightarrow>
                     (case CreateContainer (client b)
                             \<lparr> CreateContainerOptions_Name = getContainerName b,
                               CreateContainerOptions_Config =
                                 \<lparr> Config_Image = Interpolate env (Name b),
                                   Tty = False,
                                   OpenStdin = True,
                                   Config_Cmd = cmd',
                                   Config_Env = myEnv,
                                   AttachStdin = True,
                                   AttachStdout = True,
                                   AttachStderr = True,
                                   ExposedPorts = exposedPorts (PublishPorts (options b)),
                                   NetworkDisabled = networkDisabled b,
                                   Config_DNS = DockerDNS (dockerOptions b),
                                   Config_Entrypoint = entrypoint' \<rparr> \<rparr> w of
                        (Inl err, w) \<Rightarrow> (Inl err, b, w)
                      | (Inr c, w) \<Rightarrow>
                         (let b = logln Debug [] [''Docker Container:'', Container_ID c] b
                          in case binds lib b w of
                               (Inl err, w) \<Rightarrow> (Inl err, b, w)
                             | (Inr bnds, w) \<Rightarrow>
                                (let (lnks, b) = links b w;
                                     (dropped, w) =
                                        StartContainer (client b) (Container_ID c)
                                          \<lparr> Binds = bnds,
                                            Links = lnks,
                                            PortBindings = portBindings (PublishPorts (options b)),
                                            HostConfig_DNS = DockerDNS (dockerOptions b) \<rparr> w;
                                     b = b \<lparr> container := Some c \<rparr>
                                 in (Inr c, b, w)))))))"

subsection \<open>Clean\<close>

text \<open>The first two statements of \<^verbatim>\<open>Clean\<close> collect the container IDs: the box's own, then
  that of every service that reports one.\<close>

fun Clean_collect :: "string list \<Rightarrow> 'w ServiceBox list \<Rightarrow> 'w \<Rightarrow> string list" where
  "Clean_collect containers [] w = containers"
| "Clean_collect containers (service # rest) w =
     (let containerID = svc_GetID service w
      in if containerID \<noteq> [] then Clean_collect (containers @ [containerID]) rest w
         else Clean_collect containers rest w)"

fun Clean_containers ::
  "'w DockerBox \<Rightarrow> string list \<Rightarrow> 'w \<Rightarrow> error option \<times> 'w DockerBox \<times> 'w" where
  "Clean_containers b [] w = (None, b, w)"
| "Clean_containers b (c # containers) w =
     (let opts = \<lparr> RemoveContainerOptions_ID = c, RemoveVolumes = True, Force = True \<rparr>;
          b = logln Debug [(''Container'', FString c)] [''Removing container:'', c] b
      in case RemoveContainer (client b) opts w of
           (Some err, w) \<Rightarrow> (Some err, b, w)
         | (None, w) \<Rightarrow> Clean_containers b containers w)"

text \<open>The loop \<^verbatim>\<open>for i := len(b.images) - 1; i >= 0; i--\<close>; the argument \<open>Suc i\<close> stands for
  the index \<open>i\<close> about to be visited, \<open>0\<close> for the end of the loop.\<close>

fun Clean_images :: "'w DockerBox \<Rightarrow> nat \<Rightarrow> 'w \<Rightarrow> 'w DockerBox \<times> 'w" where
  "Clean_images b 0 w = (b, w)"
| "Clean_images b (Suc i) w =
     (let b = logln Debug [(''Image'', FString (Image_ID (images b ! i)))]
                [''Removing image:'', Image_ID (images b ! i)] b;
          (dropped, w) = RemoveImage (client b) (Image_ID (images b ! i)) w
      in Clean_images b i w)"

definition Clean :: "'w DockerBox \<Rightarrow> 'w \<Rightarrow> error option \<times> 'w DockerBox \<times> 'w" where
  "Clean b w =
     (let containers = [];
          containers = (case container b of Some c \<Rightarrow> containers @ [Container_ID c]
                        | None \<Rightarrow> containers);
          containers = Clean_collect containers (services b) w
      in case Clean_containers b containers w of
           (Some err, b, w) \<Rightarrow> (Some err, b, w)
         | (None, b, w) \<Rightarrow>
             (if \<not> ShouldCommit (options b)
              then (let (b, w) = Clean_images b (length (images b)) w in (None, b, w))
              else (None, b, w)))"

subsection \<open>Restart, AddService\<close>

text \<open>\<^verbatim>\<open>b.container.ID\<close> is read without a check for \<^verbatim>\<open>nil\<close>.\<close>

definition Restart :: "'w DockerBox \<Rightarrow> 'w \<Rightarrow> ((error + Container) \<times> 'w) outcome" where
  "Restart b w =
     (case container b of
        None \<Rightarrow> Panics
      | Some c \<Rightarrow>
          Returns (case RestartContainer (client b) (Container_ID c) 1 w of
                     (Some err, w) \<Rightarrow> (Inl err, w)
                   | (None, w) \<Rightarrow> (Inr c, w)))"

definition AddService :: "'w DockerBox \<Rightarrow> 'w ServiceBox \<Rightarrow> 'w DockerBox" where
  "AddService b service = b \<lparr> services := services b @ [service] \<rparr>"

subsection \<open>Stop\<close>

fun Stop_services :: "'w DockerBox \<Rightarrow> 'w ServiceBox list \<Rightarrow> 'w \<Rightarrow> 'w DockerBox \<times> 'w" where
  "Stop_services b [] w = (b, w)"
| "Stop_services b (service # rest) w =
     (let b = logln Debug [] [''Stopping service'', svc_GetID service w] b
      in case StopContainer (client b) (svc_GetID service w) 1 w of
           (None, w) \<Rightarrow> Stop_services b rest w
         | (Some (ContainerNotRunning x), w) \<Rightarrow>
             Stop_services (logln Warn [] [''Service container has already stopped.''] b) rest w
         | (Some err, w) \<Rightarrow>
             Stop_services
               (logln Warn [(''Error'', FError err)]
                  [''Wasn't able to stop service container'', svc_GetID service w] b)
               rest w)"

text \<open>\<^verbatim>\<open>Stop\<close> has no result in the source; the model returns the box (for its log) and the
  world.\<close>

definition Stop :: "'w DockerBox \<Rightarrow> 'w \<Rightarrow> 'w DockerBox \<times> 'w" where
  "Stop b w =
     (let (b, w) = Stop_services b (services b) w
      in case container b of
           None \<Rightarrow> (b, w)
         | Some c \<Rightarrow>
             (let b = logln Debug [] [''Stopping container'', Container_ID c] b
              in case StopContainer (client b) (Container_ID c) 1 w of
                   (None, w) \<Rightarrow> (b, w)
                 | (Some (ContainerNotRunning x), w) \<Rightarrow>
                     (logln Warn [] [''Box container has already stopped.''] b, w)
                 | (Some err, w) \<Rightarrow>
                     (logln Warn [(''Error'', FError err)]
                        [''Wasn't able to stop box container'', Container_ID c] b, w)))"

subsection \<open>Fetch\<close>

text \<open>The result is the pair \<^verbatim>\<open>(*docker.Image, error)\<close>: \<open>Inr None\<close> is a \<^verbatim>\<open>nil\<close> handle with a
  \<^verbatim>\<open>nil\<close> error. The status emitter runs in a goroutine of its own and returns nothing to
  \<^verbatim>\<open>Fetch\<close>; it is not part of the model.\<close>

definition Fetch ::
  "'w DockerBox \<Rightarrow> Context \<Rightarrow> Environment \<Rightarrow> 'w \<Rightarrow> (error + Image option) \<times> 'w DockerBox \<times> 'w" where
  "Fetch b ctx env w =
     (case EmitterFromContext ctx of
        Inl err \<Rightarrow> (Inl err, b, w)
      | Inr e \<Rightarrow>
          (if DockerLocal (dockerOptions b)
           then (case InspectImage (client b) (Interpolate env (Name b)) w of
                   (Inl err, w) \<Rightarrow> (Inl err, b, w)
                 | (Inr img, w) \<Rightarrow> (Inr (Some img), b \<lparr> box_image := Some img \<rparr>, w))
           else
             (let auth = \<lparr> Username = Interpolate env (BoxConfig_Username (config b)),
                           Password = Interpolate env (BoxConfig_Password (config b)) \<rparr>;
                  checkOpts = \<lparr> Auth = auth,
                                Access = ''read'',
                                CheckAccessOptions_Repository = Interpolate env (repository b),
                                Registry = Interpolate env (BoxConfig_Registry (config b)) \<rparr>
              in case CheckAccess (client b) checkOpts w of
                   (Inl err, w) \<Rightarrow> (Inl err, logln Error [] [''Error during check access''] b, w)
                 | (Inr check, w) \<Rightarrow>
                     (if \<not> check
                      then (Inl (Errorf (''Not allowed to interact with this repository: '' @
                                         repository b)),
                            logln Error []
                              [''Not allowed to interact with this repository:'', repository b] b,
                            w)
                      else
                        (let opts = \<lparr> RawJSONStream = True,
                                       PullImageOptions_Repository = Interpolate env (repository b),
                                       PullImageOptions_Tag = Interpolate env (tag b) \<rparr>
                         in case PullImage (client b) opts auth w of
                              (Some err, w) \<Rightarrow> (Inl err, b, w)
                            | (None, w) \<Rightarrow>
                                (case InspectImage (client b) (Interpolate env (Name b)) w of
                                   (Inl err, w) \<Rightarrow> (Inl err, b, w)
                                 | (Inr img, w) \<Rightarrow>
                                     (Inr None, b \<lparr> box_image := Some img \<rparr>, w)))))))"

subsection \<open>Commit\<close>

text \<open>The log entry is written first; then \<^verbatim>\<open>b.container.ID\<close> is read without a check for
  \<^verbatim>\<open>nil\<close>. The parameter \<^verbatim>\<open>message\<close> is not used by the source.\<close>

definition Commit ::
  "'w DockerBox \<Rightarrow> string \<Rightarrow> string \<Rightarrow> string \<Rightarrow> 'w
     \<Rightarrow> ((error + Image) \<times> 'w DockerBox \<times> 'w) outcome" where
  "Commit b name tg msg w =
     (let b = logln Debug [(''Name'', FString name), (''Tag'', FString tg)]
                [''Commit container:'', name, tg] b
      in case container b of
           None \<Rightarrow> Panics
         | Some c \<Rightarrow>
             (let commitOptions = \<lparr> CommitContainerOptions_Container = Container_ID c,
                                     CommitContainerOptions_Repository = name,
                                     CommitContainerOptions_Tag = tg,
                                     Message = ''Build completed'',
                                     Author = ''wercker'' \<rparr>
              in Returns (case CommitContainer (client b) commitOptions w of
                            (Inl err, w) \<Rightarrow> (Inl err, b, w)
                          | (Inr img, w) \<Rightarrow> (Inr img, b \<lparr> images := images b @ [img] \<rparr>, w))))"

subsection \<open>The normal form of a publish spec, in the words of the specification\<close>

text \<open>Section 4.5 of the specification: a container port without a \<^verbatim>\<open>/protocol\<close> suffix gets
  \<^verbatim>\<open>/tcp\<close>; an empty host port is the container port; the host port loses its
  \<^verbatim>\<open>/protocol\<close> suffix; the host IP is kept as given (empty when there is none). These
  definitions are compared with \<open>portBinding1\<close>, which follows the source.\<close>

definition containerPort_normal :: "string \<Rightarrow> string" where
  "containerPort_normal c = (if CHR ''/'' \<in> set c then c else c @ ''/tcp'')"

definition hostPort_normal :: "string \<Rightarrow> string \<Rightarrow> string" where
  "hostPort_normal h cp = takeWhile (\<lambda>x. x \<noteq> CHR ''/'') (if h = [] then cp else h)"

definition publish_normal :: "string \<Rightarrow> string \<Rightarrow> string \<Rightarrow> string \<times> PortBinding" where
  "publish_normal ip h c =
     (containerPort_normal c,
      \<lparr> HostIP = ip, HostPort = hostPort_normal h (containerPort_normal c) \<rparr>)"

subsection \<open>A concrete engine that records its calls\<close>

text \<open>For the examples: the world is the list of calls made so far, oldest first. The
  scripted client appends every call to it and fails exactly where its script says so;
  a scripted service does the same for \<^verbatim>\<open>Run\<close>.\<close>

datatype call =
    ServiceRunCall string "string list"
  | CreateCall string
  | StartCall string "string list"
  | StopCall string
  | RestartCall string
  | RemoveCall string
  | RemoveImageCall string
  | CheckAccessCall string
  | PullCall string string
  | InspectCall string
  | CommitCall string

definition scripted_client :: "(call \<Rightarrow> error option) \<Rightarrow> call list DockerClient" where
  "scripted_client script =
     \<lparr> CreateContainer = (\<lambda>opts w.
          (case script (CreateCall (CreateContainerOptions_Name opts)) of
             Some err \<Rightarrow> Inl err
           | None \<Rightarrow> Inr \<lparr> Container_ID = ''id-'' @ CreateContainerOptions_Name opts,
                            Container_Name = CreateContainerOptions_Name opts \<rparr>,
           w @ [CreateCall (CreateContainerOptions_Name opts)])),
       StartContainer = (\<lambda>i h w. (script (StartCall i (Links h)), w @ [StartCall i (Links h)])),
       StopContainer = (\<lambda>i g w. (script (StopCall i), w @ [StopCall i])),
       RestartContainer = (\<lambda>i g w. (script (RestartCall i), w @ [RestartCall i])),
       RemoveContainer = (\<lambda>opts w.
          (script (RemoveCall (RemoveContainerOptions_ID opts)),
           w @ [RemoveCall (RemoveContainerOptions_ID opts)])),
       RemoveImage = (\<lambda>i w. (script (RemoveImageCall i), w @ [RemoveImageCall i])),
       CheckAccess = (\<lambda>opts w.
          (case script (CheckAccessCall (CheckAccessOptions_Repository opts)) of
             Some err \<Rightarrow> Inl err | None \<Rightarrow> Inr True,
           w @ [CheckAccessCall (CheckAccessOptions_Repository opts)])),
       PullImage = (\<lambda>opts a w.
          (script (PullCall (PullImageOptions_Repository opts) (PullImageOptions_Tag opts)),
           w @ [PullCall (PullImageOptions_Repository opts) (PullImageOptions_Tag opts)])),
       InspectImage = (\<lambda>r w.
          (case script (InspectCall r) of
             Some err \<Rightarrow> Inl err | None \<Rightarrow> Inr \<lparr> Image_ID = ''img-'' @ r \<rparr>,
           w @ [InspectCall r])),
       CommitContainer = (\<lambda>opts w.
          (case script (CommitCall (CommitContainerOptions_Repository opts)) of
             Some err \<Rightarrow> Inl err
           | None \<Rightarrow> Inr \<lparr> Image_ID = ''img-'' @ CommitContainerOptions_Repository opts \<rparr>,
           w @ [CommitCall (CommitContainerOptions_Repository opts)])) \<rparr>"

definition scripted_service :: "string \<Rightarrow> error option \<Rightarrow> call list ServiceBox" where
  "scripted_service name fails =
     \<lparr> svc_GetName = (\<lambda>w. name),
       svc_GetID = (\<lambda>w. ''id-'' @ name),
       svc_Link = (\<lambda>w. ''c-'' @ name @ '':'' @ name),
       svc_Run = (\<lambda>ctx env lnks w.
          (case fails of
             Some err \<Rightarrow> Inl err
           | None \<Rightarrow> Inr \<lparr> Container_ID = ''id-'' @ name, Container_Name = ''c-'' @ name \<rparr>,
           w @ [ServiceRunCall name lnks])) \<rparr>"

definition scripted_lib :: "error option \<Rightarrow> call list Lib" where
  "scripted_lib fails =
     \<lparr> shlex_Split = (\<lambda>s. Inr (Split s CHR '' '')),
       ToUpper = (\<lambda>s. s),
       ReadDir = (\<lambda>p w. (case fails of Some err \<Rightarrow> Inl err | None \<Rightarrow> Inr [], w)) \<rparr>"

definition cfg0 :: BoxConfig where
  "cfg0 = \<lparr> BoxConfig_ID = ''wercker/ubuntu'', BoxConfig_Tag = [], BoxConfig_Cmd = [],
            BoxConfig_Entrypoint = [], BoxConfig_Env = [], BoxConfig_Username = [],
            BoxConfig_Password = [], BoxConfig_Registry = [] \<rparr>"

definition opts0 :: PipelineOptions where
  "opts0 = \<lparr> PipelineID = ''p1'', DirectMount = False, ShouldCommit = False, PublishPorts = [],
             HostPath = (\<lambda>xs. concat (map (\<lambda>x. ''/host/'' @ x) xs)),
             GuestPath = (\<lambda>xs. concat (map (\<lambda>x. ''/pipeline/'' @ x) xs)),
             MntPath = (\<lambda>xs. concat (map (\<lambda>x. ''/mnt/'' @ x) xs)) \<rparr>"

definition dockerOpts0 :: DockerOptions where
  "dockerOpts0 = \<lparr> DockerLocal = False, DockerDNS = [] \<rparr>"

definition ctx0 :: Context where
  "ctx0 = \<lparr> EmitterFromContext = Inr NormalizedEmitter \<rparr>"

definition env0 :: Environment where
  "env0 = \<lparr> Interpolate = (\<lambda>s. s) \<rparr>"

text \<open>The box that \<open>NewDockerBox\<close> builds from \<open>cfg0\<close>, with the scripted client.\<close>

definition box0 :: "(call \<Rightarrow> error option) \<Rightarrow> call list DockerBox" where
  "box0 script =
     \<lparr> Name = ''wercker/ubuntu:latest'', ShortName = ''ubuntu'', networkDisabled = False,
       client = scripted_client script, services = [], options = opts0,
       dockerOptions = dockerOpts0, container = None, config = cfg0, cmd = ''/bin/bash'',
       repository = ''wercker/ubuntu'', tag = ''latest'', images = [], logger = [],
       entrypoint = [], box_image = None,
       volumes = [''/var/run/docker.sock'', ''/usr/local/bin/docker''] \<rparr>"



text \<open>A script under which only \<^verbatim>\<open>StartContainer\<close> fails.\<close>

definition start_fails :: "call \<Rightarrow> error option" where
  "start_fails c = (case c of StartCall i l \<Rightarrow> Some (OtherError ''cannot start'') | _ \<Rightarrow> None)"

subsection \<open>Starting services in order, in the words of the specification\<close>

text \<open>Section 4.2 of the specification: the services are started one after the other,
  each with the links of those started before it. \<open>started ss w\<close> is the list of links and
  the world once the services \<open>ss\<close> have been started that way from the world \<open>w\<close>;
  \<open>run_at ss w j\<close> is the start call of service \<open>j\<close>: made after the services before it,
  with exactly their links. Both are compared with \<open>RunServices\<close>, which follows the source.\<close>

definition start_step ::
  "Context \<Rightarrow> Environment \<Rightarrow> string list \<times> 'w \<Rightarrow> 'w ServiceBox \<Rightarrow> string list \<times> 'w" where
  "start_step ctx env st service =
     (let w' = snd (svc_Run service ctx env (fst st) (snd st))
      in (fst st @ [svc_Link service w'], w'))"

definition started ::
  "Context \<Rightarrow> Environment \<Rightarrow> 'w ServiceBox list \<Rightarrow> 'w \<Rightarrow> string list \<times> 'w" where
  "started ctx env ss w = foldl (start_step ctx env) ([], w) ss"

definition run_at ::
  "Context \<Rightarrow> Environment \<Rightarrow> 'w ServiceBox list \<Rightarrow> 'w \<Rightarrow> nat \<Rightarrow> (error + Container) \<times> 'w" where
  "run_at ctx env ss w j =
     svc_Run (ss ! j) ctx env (fst (started ctx env (take j ss) w))
       (snd (started ctx env (take j ss) w))"

text \<open>Three services, of which the second fails to start.\<close>

definition box3 :: "call list DockerBox" where
  "box3 = box0 (\<lambda>c. None)
     \<lparr> services := [scripted_service ''db'' None,
                    scripted_service ''cache'' (Some (OtherError ''no cache'')),
                    scripted_service ''web'' None] \<rparr>"

subsection \<open>Removing containers and images in order, in the words of the specification\<close>

text \<open>Section 4.10 of the specification. \<open>collected b w\<close> is the list of container IDs: the
  primary container's, if any, then that of every service that reports one. \<open>removed cl ids w\<close>
  is the world once the containers \<open>ids\<close> have been removed in order (forced, with their
  volumes); \<open>remove_at cl ids w j\<close> is the removal call for the \<open>j\<close>-th of them, made after the
  removal of those before it; \<open>images_removed cl imgs w\<close> is the world once the images have
  been removed, the last one first. They are compared with \<open>Clean\<close>, which follows the
  source.\<close>

definition collected :: "'w DockerBox \<Rightarrow> 'w \<Rightarrow> string list" where
  "collected b w =
     (case container b of Some c \<Rightarrow> [Container_ID c] | None \<Rightarrow> []) @
     filter (\<lambda>i. i \<noteq> []) (map (\<lambda>service. svc_GetID service w) (services b))"

definition removed :: "'w DockerClient \<Rightarrow> string list \<Rightarrow> 'w \<Rightarrow> 'w" where
  "removed cl ids w =
     foldl (\<lambda>w c. snd (RemoveContainer cl
                         \<lparr> RemoveContainerOptions_ID = c, RemoveVolumes = True, Force = True \<rparr> w))
       w ids"

definition remove_at :: "'w DockerClient \<Rightarrow> string list \<Rightarrow> 'w \<Rightarrow> nat \<Rightarrow> error option \<times> 'w" where
  "remove_at cl ids w j =
     RemoveContainer cl
       \<lparr> RemoveContainerOptions_ID = ids ! j, RemoveVolumes = True, Force = True \<rparr>
       (removed cl (take j ids) w)"

definition images_removed :: "'w DockerClient \<Rightarrow> Image list \<Rightarrow> 'w \<Rightarrow> 'w" where
  "images_removed cl imgs w = foldl (\<lambda>w img. snd (RemoveImage cl (Image_ID img) w)) w (rev imgs)"

text \<open>A box with a container, two services and two committed images; a script under which
  the removal of the first service's container fails, and one under which every removal of
  an image fails.\<close>

definition box_full :: "(call \<Rightarrow> error option) \<Rightarrow> call list DockerBox" where
  "box_full script = box0 script
     \<lparr> services := [scripted_service ''db'' None, scripted_service ''web'' None],
       container := Some \<lparr> Container_ID = ''id-main'', Container_Name = ''main'' \<rparr>,
       images := [\<lparr> Image_ID = ''img-1'' \<rparr>, \<lparr> Image_ID = ''img-2'' \<rparr>] \<rparr>"

definition remove_db_fails :: "call \<Rightarrow> error option" where
  "remove_db_fails c = (if c = RemoveCall ''id-db'' then Some (OtherError ''busy'') else None)"

definition image_removals_fail :: "call \<Rightarrow> error option" where
  "image_removals_fail c =
     (case c of RemoveImageCall i \<Rightarrow> Some (OtherError ''in use'') | _ \<Rightarrow> None)"

subsection \<open>Stopping in order, in the words of the specification\<close>

text \<open>Section 4.9 of the specification. \<open>stop_targets b\<close> is the list of containers to stop:
  every service in list order (with the ID the service reports at that moment; the flag
  says that it is a service), then the primary container if there is one. \<open>stopped cl ts w\<close>
  is the world once a stop has been attempted on every target in order, whatever each
  attempt returned; \<open>stop_call cl ts w j\<close> is the \<open>j\<close>-th of these calls. \<open>stop_entries\<close> is what
  one attempt writes to the log: a debug line with the ID, and for a failed attempt one
  warning, which for "already not running" carries no error and otherwise carries the
  error and the ID as read after the call. \<open>stop_log\<close> is the log of all attempts.
  They are compared with \<open>Stop\<close>, which follows the source.\<close>

definition stop_targets :: "'w DockerBox \<Rightarrow> (bool \<times> ('w \<Rightarrow> string)) list" where
  "stop_targets b =
     map (\<lambda>service. (True, svc_GetID service)) (services b) @
     (case container b of Some c \<Rightarrow> [(False, \<lambda>w. Container_ID c)] | None \<Rightarrow> [])"

definition stopped :: "'w DockerClient \<Rightarrow> (bool \<times> ('w \<Rightarrow> string)) list \<Rightarrow> 'w \<Rightarrow> 'w" where
  "stopped cl ts w = foldl (\<lambda>w t. snd (StopContainer cl (snd t w) 1 w)) w ts"

definition stop_call ::
  "'w DockerClient \<Rightarrow> (bool \<times> ('w \<Rightarrow> string)) list \<Rightarrow> 'w \<Rightarrow> nat \<Rightarrow> error option \<times> 'w" where
  "stop_call cl ts w j =
     StopContainer cl (snd (ts ! j) (stopped cl (take j ts) w)) 1 (stopped cl (take j ts) w)"

definition stop_entries :: "bool \<Rightarrow> string \<Rightarrow> string \<Rightarrow> error option \<Rightarrow> LogEntry list" where
  "stop_entries is_service i i' r =
     LogEntry Debug []
       (Sprintln [if is_service then ''Stopping service'' else ''Stopping container'', i]) #
     (case r of
        None \<Rightarrow> []
      | Some (ContainerNotRunning x) \<Rightarrow>
          [LogEntry Warn []
             (if is_service then ''Service container has already stopped.''
              else ''Box container has already stopped.'')]
      | Some err \<Rightarrow>
          [LogEntry Warn [(''Error'', FError err)]
             (Sprintln [if is_service then ''Wasn't able to stop service container''
                        else ''Wasn't able to stop box container'', i'])])"

definition stop_log ::
  "'w DockerClient \<Rightarrow> (bool \<times> ('w \<Rightarrow> string)) list \<Rightarrow> 'w \<Rightarrow> LogEntry list" where
  "stop_log cl ts w =
     concat (map (\<lambda>j. stop_entries (fst (ts ! j))
                        (snd (ts ! j) (stopped cl (take j ts) w))
                        (snd (ts ! j) (snd (stop_call cl ts w j)))
                        (fst (stop_call cl ts w j)))
               [0..<length ts])"

text \<open>A script under which every stop fails: "already not running" for the services,
  another error for the primary container.\<close>

definition stops_fail :: "call \<Rightarrow> error option" where
  "stops_fail c =
     (case c of
        StopCall i \<Rightarrow> Some (if i = ''id-main'' then OtherError ''engine down''
                             else ContainerNotRunning i)
      | _ \<Rightarrow> None)"

section \<open>Properties\<close>

subsection \<open>Splitting strings\<close>

lemma Split_no_sep: "sep \<notin> set s \<Longrightarrow> Split s sep = [s]"
  by (induction s) auto

lemma Split_not_Nil: "Split s sep \<noteq> []"
  by (induction s) (auto split: list.splits)

lemma Split_append: "sep \<notin> set a \<Longrightarrow> Split (a @ sep # b) sep = a # Split b sep"
  by (induction a) auto

lemma hd_Split: "hd (Split s sep) = takeWhile (\<lambda>c. c \<noteq> sep) s"
  by (induction s) (auto split: list.splits simp: Split_not_Nil)


subsection \<open>Port translation\<close>

lemma portBinding1_fields1:
  "CHR '':'' \<notin> set f \<Longrightarrow> portBinding1 f = publish_normal [] f f"
  by (simp add: portBinding1_def Split_no_sep hd_Split Contains_def publish_normal_def
      containerPort_normal_def hostPort_normal_def Let_def)

lemma portBinding1_fields2:
  "CHR '':'' \<notin> set h \<Longrightarrow> CHR '':'' \<notin> set c \<Longrightarrow> portBinding1 (h @ '':'' @ c) = publish_normal [] h c"
  by (simp add: portBinding1_def Split_no_sep Split_append hd_Split Contains_def publish_normal_def
      containerPort_normal_def hostPort_normal_def Let_def)

lemma portBinding1_fields3:
  "CHR '':'' \<notin> set ip \<Longrightarrow> CHR '':'' \<notin> set h \<Longrightarrow> CHR '':'' \<notin> set c \<Longrightarrow>
   portBinding1 (ip @ '':'' @ h @ '':'' @ c) = publish_normal ip h c"
  by (simp add: portBinding1_def Split_no_sep Split_append hd_Split Contains_def publish_normal_def
      containerPort_normal_def hostPort_normal_def Let_def)

lemma portBindings_loop_map_of:
  "portBindings_loop outer published =
     outer ++ map_of (rev (map (\<lambda>p. (fst (portBinding1 p), [snd (portBinding1 p)])) published))"
  by (induction published arbitrary: outer) (auto simp: split_def Let_def map_add_upd_left fun_eq_iff map_add_def split: option.splits)

lemma portBindings_map_of:
  "portBindings published =
     map_of (rev (map (\<lambda>p. (fst (portBinding1 p), [snd (portBinding1 p)])) published))"
  by (simp add: portBindings_def portBindings_loop_map_of)

lemma portBindings_dom: "dom (portBindings published) = (\<lambda>p. fst (portBinding1 p)) ` set published"
  by (simp add: portBindings_map_of dom_map_of_conv_image_fst image_image)

lemma portBindings_singleton:
  "portBindings published k = Some bs \<Longrightarrow>
     \<exists>p \<in> set published. k = fst (portBinding1 p) \<and> bs = [snd (portBinding1 p)]"
  by (auto simp: portBindings_map_of dest!: map_of_SomeD)

lemma portBindings_last:
  "portBindings (published @ [p]) (fst (portBinding1 p)) = Some [snd (portBinding1 p)]"
  by (simp add: portBindings_map_of)

text \<open>
  Claim C9. A publish spec of one, two or three \<^verbatim>\<open>:\<close>-separated fields is translated to
  the normal form of the specification: with one field the host port and the container
  port are that field, with two the host port comes first, with three the host IP comes
  first; the container port gets \<^verbatim>\<open>/tcp\<close> when it has no \<^verbatim>\<open>/\<close>, an empty host port is
  the container port, and the host port is cut at its first \<^verbatim>\<open>/\<close>. The result of
  \<^verbatim>\<open>portBindings\<close> maps the container port of every spec, and nothing else, to a list of
  exactly one binding, that of the last spec with this container port.
\<close>

theorem portBindings_spec:
  "(CHR '':'' \<notin> set f \<longrightarrow> portBinding1 f = publish_normal [] f f) \<and>
   (CHR '':'' \<notin> set h \<and> CHR '':'' \<notin> set c \<longrightarrow>
      portBinding1 (h @ '':'' @ c) = publish_normal [] h c) \<and>
   (CHR '':'' \<notin> set ip \<and> CHR '':'' \<notin> set h \<and> CHR '':'' \<notin> set c \<longrightarrow>
      portBinding1 (ip @ '':'' @ h @ '':'' @ c) = publish_normal ip h c) \<and>
   portBindings published =
     map_of (rev (map (\<lambda>p. (fst (portBinding1 p), [snd (portBinding1 p)])) published)) \<and>
   dom (portBindings published) = (\<lambda>p. fst (portBinding1 p)) ` set published \<and>
   (\<forall>k bs. portBindings published k = Some bs \<longrightarrow>
      (\<exists>p \<in> set published. k = fst (portBinding1 p) \<and> bs = [snd (portBinding1 p)]))"
  using portBinding1_fields1 portBinding1_fields2 portBinding1_fields3 portBindings_map_of
    portBindings_dom portBindings_singleton by blast

theorem portBindings_spec_witness:
  "CHR '':'' \<notin> set ''80'' \<and> CHR '':'' \<notin> set ''8080'' \<and> CHR '':'' \<notin> set ''10.0.0.1'' \<and>
   portBinding1 ''80'' = (''80/tcp'', \<lparr> HostIP = [], HostPort = ''80'' \<rparr>) \<and>
   portBinding1 ''8080:80'' = (''80/tcp'', \<lparr> HostIP = [], HostPort = ''8080'' \<rparr>) \<and>
   portBinding1 ''10.0.0.1:8080:80'' = (''80/tcp'', \<lparr> HostIP = ''10.0.0.1'', HostPort = ''8080'' \<rparr>) \<and>
   portBindings [''8080:80'', ''53/udp''] ''80/tcp'' = Some [\<lparr> HostIP = [], HostPort = ''8080'' \<rparr>] \<and>
   portBindings [''8080:80'', ''53/udp''] ''53/udp'' = Some [\<lparr> HostIP = [], HostPort = ''53'' \<rparr>] \<and>
   dom (portBindings [''8080:80'', ''53/udp'']) = {''80/tcp'', ''53/udp''}"
  using portBindings_spec [of "''80''" "''8080''" "''80''" "''10.0.0.1''" "[''8080:80'', ''53/udp'']"]
    portBindings_spec [of "''53/udp''" "[]" "[]" "[]" "[]"]
  by (auto simp add: publish_normal_def containerPort_normal_def hostPort_normal_def)

subsection \<open>Construction\<close>





text \<open>
  Claim C8. An identifier that contains \<^verbatim>\<open>@\<close> makes the construction return the error
  "Invalid box name, ..." (the InvalidIdentifier of the specification), whatever the other
  arguments are; the result is an error, so no box is returned.
\<close>

theorem NewDockerBox_invalid:
  "CHR ''@'' \<in> set (BoxConfig_ID boxConfig) \<Longrightarrow>
     NewDockerBox NewDockerClient boxConfig opts dockerOpts =
       Inl (Errorf ''Invalid box name, '@' is not allowed in docker repositories.'') \<and>
     (\<nexists>b. NewDockerBox NewDockerClient boxConfig opts dockerOpts = Inr b)"
  by (simp add: NewDockerBox_def Contains_def)

theorem NewDockerBox_invalid_witness:
  "CHR ''@'' \<in> set ''ubuntu@sha256:abc'' \<and>
   NewDockerBox (\<lambda>d. Inr (scripted_client (\<lambda>c. None)))
     (cfg0 \<lparr> BoxConfig_ID := ''ubuntu@sha256:abc'' \<rparr>) opts0 dockerOpts0 =
     Inl (Errorf ''Invalid box name, '@' is not allowed in docker repositories.'')"
  using NewDockerBox_invalid [of "cfg0 \<lparr> BoxConfig_ID := ''ubuntu@sha256:abc'' \<rparr>"
      "\<lambda>d. Inr (scripted_client (\<lambda>c. None))" opts0 dockerOpts0]
  by (simp add: cfg0_def)

subsection \<open>GetID\<close>

text \<open>
  Claim C10. \<open>GetID\<close> is a total function that returns a string, never an error: the ID of
  the container when the box has one, the empty string when it has none; a box has none
  when \<open>NewDockerBox\<close> returns it.
\<close>

theorem GetID_total:
  "GetID (b \<lparr> container := None \<rparr>) = [] \<and>
   GetID (b \<lparr> container := Some c \<rparr>) = Container_ID c \<and>
   (\<forall>b'. NewDockerBox NewDockerClient boxConfig opts dockerOpts = Inr b' \<longrightarrow> GetID b' = [])"
  by (auto simp: GetID_def NewDockerBox_def Let_def split: if_splits sum.splits)

theorem GetID_total_witness:
  "NewDockerBox (\<lambda>d. Inr (scripted_client (\<lambda>c. None))) cfg0 opts0 dockerOpts0 =
     Inr (box0 (\<lambda>c. None)) \<and>
   GetID (box0 (\<lambda>c. None)) = [] \<and>
   GetID (box0 (\<lambda>c. None) \<lparr> container := Some \<lparr> Container_ID = ''4f2a'', Container_Name = ''n'' \<rparr> \<rparr>)
     = ''4f2a''"
  using GetID_total [of "box0 (\<lambda>c. None)" "\<lparr> Container_ID = ''4f2a'', Container_Name = ''n'' \<rparr>"
      "\<lambda>d. Inr (scripted_client (\<lambda>c. None))" cfg0 opts0 dockerOpts0]
  by (simp add: NewDockerBox_def cfg0_def box0_def Contains_def Let_def)

subsection \<open>Commit and Restart\<close>

lemma Commit_with_container:
  "container b = Some c \<Longrightarrow> Commit b name tg msg w \<noteq> Panics"
  by (simp add: Commit_def logln_def Let_def)

lemma Restart_with_container:
  "container b = Some c \<Longrightarrow> Restart b w \<noteq> Panics"
  by (simp add: Restart_def)

text \<open>
  Claim C6, at the input where it fails: a box without a container handle. \<open>Commit\<close> and
  \<open>Restart\<close> read the ID through the absent handle and panic; they return no error.
\<close>

theorem Commit_Restart_without_container:
  "Commit (b \<lparr> container := None \<rparr>) name tg msg w = Panics \<and>
   Restart (b \<lparr> container := None \<rparr>) w = Panics"
  by (simp add: Commit_def Restart_def logln_def)

subsection \<open>Fetch\<close>

text \<open>
  Claim C2. With an emitter in the context: on the remote path (no local shortcut), when
  the access check answers yes, the pull succeeds and the inspection returns an image,
  \<open>Fetch\<close> stores that image in the box and returns no handle and no error; on the local
  shortcut, when the inspection returns an image, it stores the image and returns it.
\<close>

theorem Fetch_result:
  assumes "EmitterFromContext ctx = Inr em"
  shows
   "(\<not> DockerLocal (dockerOptions b) \<and>
     CheckAccess (client b)
       \<lparr> Auth = \<lparr> Username = Interpolate env (BoxConfig_Username (config b)),
                  Password = Interpolate env (BoxConfig_Password (config b)) \<rparr>,
         Access = ''read'',
         CheckAccessOptions_Repository = Interpolate env (repository b),
         Registry = Interpolate env (BoxConfig_Registry (config b)) \<rparr> w = (Inr True, w1) \<and>
     PullImage (client b)
       \<lparr> RawJSONStream = True,
         PullImageOptions_Repository = Interpolate env (repository b),
         PullImageOptions_Tag = Interpolate env (tag b) \<rparr>
       \<lparr> Username = Interpolate env (BoxConfig_Username (config b)),
         Password = Interpolate env (BoxConfig_Password (config b)) \<rparr> w1 = (None, w2) \<and>
     InspectImage (client b) (Interpolate env (Name b)) w2 = (Inr img, w3)
     \<longrightarrow> Fetch b ctx env w = (Inr None, b \<lparr> box_image := Some img \<rparr>, w3)) \<and>
    (DockerLocal (dockerOptions b) \<and>
     InspectImage (client b) (Interpolate env (Name b)) w = (Inr img, w1)
     \<longrightarrow> Fetch b ctx env w = (Inr (Some img), b \<lparr> box_image := Some img \<rparr>, w1))"
  using assms by (simp add: Fetch_def Let_def)

theorem Fetch_result_witness:
  "Fetch (box0 (\<lambda>c. None)) ctx0 env0 [] =
     (Inr None,
      box0 (\<lambda>c. None) \<lparr> box_image := Some \<lparr> Image_ID = ''img-wercker/ubuntu:latest'' \<rparr> \<rparr>,
      [CheckAccessCall ''wercker/ubuntu'', PullCall ''wercker/ubuntu'' ''latest'',
       InspectCall ''wercker/ubuntu:latest'']) \<and>
   Fetch (box0 (\<lambda>c. None) \<lparr> dockerOptions := dockerOpts0 \<lparr> DockerLocal := True \<rparr> \<rparr>) ctx0 env0 [] =
     (Inr (Some \<lparr> Image_ID = ''img-wercker/ubuntu:latest'' \<rparr>),
      box0 (\<lambda>c. None) \<lparr> dockerOptions := dockerOpts0 \<lparr> DockerLocal := True \<rparr>,
                        box_image := Some \<lparr> Image_ID = ''img-wercker/ubuntu:latest'' \<rparr> \<rparr>,
      [InspectCall ''wercker/ubuntu:latest''])"
  using Fetch_result [of ctx0 NormalizedEmitter "box0 (\<lambda>c. None)" env0 "[]"
      "[CheckAccessCall ''wercker/ubuntu'']"
      "[CheckAccessCall ''wercker/ubuntu'', PullCall ''wercker/ubuntu'' ''latest'']"
      "\<lparr> Image_ID = ''img-wercker/ubuntu:latest'' \<rparr>"
      "[CheckAccessCall ''wercker/ubuntu'', PullCall ''wercker/ubuntu'' ''latest'',
        InspectCall ''wercker/ubuntu:latest'']"]
    Fetch_result [of ctx0 NormalizedEmitter
      "box0 (\<lambda>c. None) \<lparr> dockerOptions := dockerOpts0 \<lparr> DockerLocal := True \<rparr> \<rparr>" env0 "[]"
      "[InspectCall ''wercker/ubuntu:latest'']" "[]"
      "\<lparr> Image_ID = ''img-wercker/ubuntu:latest'' \<rparr>" "[]"]
  by (simp add: ctx0_def box0_def env0_def dockerOpts0_def cfg0_def scripted_client_def)

subsection \<open>Run\<close>

lemma exposedPorts_code [code]:
  "exposedPorts published = set (map (\<lambda>p. fst (portBinding1 p)) published)"
  by (simp add: exposedPorts_def portBindings_dom)


lemma RunServices_no_services: "services b = [] \<Longrightarrow> RunServices b ctx env w = (None, b, w)"
  by (simp add: RunServices_def)

lemma Run_service_error:
  "RunServices b ctx env w = (Some err, b1, w1) \<Longrightarrow> Run lib b ctx env w = (Inl err, b1, w1)"
  by (simp add: Run_def)

lemma Run_create_error:
  assumes "RunServices b ctx env w = (None, b1, w1)"
    and "entrypoint b1 = []"
    and "shlex_Split lib (cmd b1) = Inr cmd'"
    and "CreateContainer (client b1)
           \<lparr> CreateContainerOptions_Name = getContainerName b1,
             CreateContainerOptions_Config =
               \<lparr> Config_Image = Interpolate env (Name b1), Tty = False, OpenStdin = True,
                 Config_Cmd = cmd', Config_Env = dockerEnv lib (BoxConfig_Env (config b1)) env,
                 AttachStdin = True, AttachStdout = True, AttachStderr = True,
                 ExposedPorts = exposedPorts (PublishPorts (options b1)),
                 NetworkDisabled = networkDisabled b1,
                 Config_DNS = DockerDNS (dockerOptions b1),
                 Config_Entrypoint = None \<rparr> \<rparr> w1 = (Inl err, w2)"
  shows "fst (Run lib b ctx env w) = Inl err \<and> snd (snd (Run lib b ctx env w)) = w2"
  using assms by (simp add: Run_def logln_def getContainerName_def Let_def)

lemma Run_binds_error_or_start_dropped:
  assumes "RunServices b ctx env w = (None, b1, w1)"
    and "entrypoint b1 = []"
    and "shlex_Split lib (cmd b1) = Inr cmd'"
    and "CreateContainer (client b1)
           \<lparr> CreateContainerOptions_Name = getContainerName b1,
             CreateContainerOptions_Config =
               \<lparr> Config_Image = Interpolate env (Name b1), Tty = False, OpenStdin = True,
                 Config_Cmd = cmd', Config_Env = dockerEnv lib (BoxConfig_Env (config b1)) env,
                 AttachStdin = True, AttachStdout = True, AttachStderr = True,
                 ExposedPorts = exposedPorts (PublishPorts (options b1)),
                 NetworkDisabled = networkDisabled b1,
                 Config_DNS = DockerDNS (dockerOptions b1),
                 Config_Entrypoint = None \<rparr> \<rparr> w1 = (Inr c, w2)"
  shows "ReadDir lib (HostPath (options b1) []) w2 = (Inl err, w3) \<Longrightarrow>
           fst (Run lib b ctx env w) = Inl err \<and> snd (snd (Run lib b ctx env w)) = w3"
    and "ReadDir lib (HostPath (options b1) []) w2 = (Inr entries, w3) \<Longrightarrow>
           fst (Run lib b ctx env w) = Inr c \<and>
           container (fst (snd (Run lib b ctx env w))) = Some c"
  using assms
  by (simp_all add: Run_def logln_def getContainerName_def binds_def links_def Let_def split_def)

text \<open>
  Claim C1, at the input where it fails: a box without services whose engine creates the
  container and then fails to start it. The engine's \<open>StartContainer\<close> returns an error
  for the very call that \<open>Run\<close> makes, and \<open>Run\<close> returns the container handle (and
  stores it in the box), not that error. The errors of the services, of the container
  creation and of the bind computation are returned, by the three lemmas above.
\<close>

theorem Run_drops_start_error:
  "StartContainer (client (box0 start_fails)) ''id-wercker-pipeline-p1''
     \<lparr> Binds = [''/var/run/docker.sock:/var/run/docker.sock'',
                 ''/usr/local/bin/docker:/usr/local/bin/docker''],
       Links = [], PortBindings = portBindings [], HostConfig_DNS = [] \<rparr>
     [CreateCall ''wercker-pipeline-p1''] =
     (Some (OtherError ''cannot start''),
      [CreateCall ''wercker-pipeline-p1'', StartCall ''id-wercker-pipeline-p1'' []]) \<and>
   fst (Run (scripted_lib None) (box0 start_fails) ctx0 env0 []) =
     Inr \<lparr> Container_ID = ''id-wercker-pipeline-p1'', Container_Name = ''wercker-pipeline-p1'' \<rparr> \<and>
   container (fst (snd (Run (scripted_lib None) (box0 start_fails) ctx0 env0 []))) =
     Some \<lparr> Container_ID = ''id-wercker-pipeline-p1'', Container_Name = ''wercker-pipeline-p1'' \<rparr> \<and>
   snd (snd (Run (scripted_lib None) (box0 start_fails) ctx0 env0 [])) =
     [CreateCall ''wercker-pipeline-p1'', StartCall ''id-wercker-pipeline-p1'' []]"
  by (simp add: Run_def RunServices_def box0_def scripted_client_def scripted_lib_def
      start_fails_def ctx0_def env0_def opts0_def dockerOpts0_def cfg0_def dockerEnv_def
      getContainerName_def binds_def links_def logln_def exposedPorts_def portBindings_def
      SprintSlice_def Let_def)

subsection \<open>RunServices\<close>

lemma RunServices_loop_ok:
  "\<forall>j<length ss. \<not> isl (fst (svc_Run (ss ! j) ctx env
        (fst (foldl (start_step ctx env) st (take j ss)))
        (snd (foldl (start_step ctx env) st (take j ss))))) \<Longrightarrow>
   fst (RunServices_loop ctx env b (fst st) ss (snd st)) = None \<and>
   snd (snd (RunServices_loop ctx env b (fst st) ss (snd st))) =
     snd (foldl (start_step ctx env) st ss)"
proof (induction ss arbitrary: b st)
  case Nil
  then show ?case by simp
next
  case (Cons s ss)
  from Cons.prems [rule_format, of 0]
  have "\<not> isl (fst (svc_Run s ctx env (fst st) (snd st)))" by simp
  then obtain c where "fst (svc_Run s ctx env (fst st) (snd st)) = Inr c"
    by (cases "fst (svc_Run s ctx env (fst st) (snd st))") auto
  then obtain w1 where run: "svc_Run s ctx env (fst st) (snd st) = (Inr c, w1)"
    by (cases "svc_Run s ctx env (fst st) (snd st)") auto
  have step: "start_step ctx env st s = (fst st @ [svc_Link s w1], w1)"
    by (simp add: start_step_def run)
  have "\<forall>j<length ss. \<not> isl (fst (svc_Run (ss ! j) ctx env
        (fst (foldl (start_step ctx env) (start_step ctx env st s) (take j ss)))
        (snd (foldl (start_step ctx env) (start_step ctx env st s) (take j ss)))))"
    using Cons.prems by (auto dest: spec [of _ "Suc j" for j])
  from Cons.IH [OF this]
  show ?case by (simp add: run step)
qed

lemma RunServices_loop_fail:
  "k < length ss \<Longrightarrow>
   \<forall>j<k. \<not> isl (fst (svc_Run (ss ! j) ctx env
        (fst (foldl (start_step ctx env) st (take j ss)))
        (snd (foldl (start_step ctx env) st (take j ss))))) \<Longrightarrow>
   svc_Run (ss ! k) ctx env
        (fst (foldl (start_step ctx env) st (take k ss)))
        (snd (foldl (start_step ctx env) st (take k ss))) = (Inl e, w') \<Longrightarrow>
   fst (RunServices_loop ctx env b (fst st) ss (snd st)) = Some e \<and>
   snd (snd (RunServices_loop ctx env b (fst st) ss (snd st))) = w'"
proof (induction ss arbitrary: b st k)
  case Nil
  then show ?case by simp
next
  case (Cons s ss)
  show ?case
  proof (cases k)
    case 0
    with Cons.prems(3) show ?thesis by simp
  next
    case (Suc k')
    from Cons.prems(2) [rule_format, of 0] Suc
    have "\<not> isl (fst (svc_Run s ctx env (fst st) (snd st)))" by simp
    then obtain c where "fst (svc_Run s ctx env (fst st) (snd st)) = Inr c"
      by (cases "fst (svc_Run s ctx env (fst st) (snd st))") auto
    then obtain w1 where run: "svc_Run s ctx env (fst st) (snd st) = (Inr c, w1)"
      by (cases "svc_Run s ctx env (fst st) (snd st)") auto
    have step: "start_step ctx env st s = (fst st @ [svc_Link s w1], w1)"
      by (simp add: start_step_def run)
    have 1: "k' < length ss" using Cons.prems(1) Suc by simp
    have 2: "\<forall>j<k'. \<not> isl (fst (svc_Run (ss ! j) ctx env
        (fst (foldl (start_step ctx env) (start_step ctx env st s) (take j ss)))
        (snd (foldl (start_step ctx env) (start_step ctx env st s) (take j ss)))))"
      using Cons.prems(2) Suc by (auto dest: spec [of _ "Suc j" for j])
    have 3: "svc_Run (ss ! k') ctx env
        (fst (foldl (start_step ctx env) (start_step ctx env st s) (take k' ss)))
        (snd (foldl (start_step ctx env) (start_step ctx env st s) (take k' ss))) = (Inl e, w')"
      using Cons.prems(3) Suc by simp
    from Cons.IH [OF 1 2 3]
    show ?thesis by (simp add: run step)
  qed
qed

lemma RunServices_loop_box:
  "\<exists>l. fst (snd (RunServices_loop ctx env b lnks ss w)) = b \<lparr> logger := logger b @ l \<rparr>"
proof (induction ss arbitrary: b lnks w)
  case Nil
  have "b = b \<lparr> logger := logger b @ [] \<rparr>" by simp
  then show ?case by (metis RunServices_loop.simps(1) fst_conv snd_conv)
next
  case (Cons s ss)
  show ?case
  proof (cases "svc_Run s ctx env lnks w")
    case (Pair r w1)
    show ?thesis
    proof (cases r)
      case (Inl e)
      with Pair show ?thesis by (auto simp: logln_def)
    next
      case (Inr c)
      from Cons.IH [of "logln Debug [] [''Startinq service:'', svc_GetName s w] b"
          "lnks @ [svc_Link s w1]" w1]
      obtain l where "fst (snd (RunServices_loop ctx env
           (logln Debug [] [''Startinq service:'', svc_GetName s w] b) (lnks @ [svc_Link s w1]) ss w1)) =
           logln Debug [] [''Startinq service:'', svc_GetName s w] b
             \<lparr> logger := logger (logln Debug [] [''Startinq service:'', svc_GetName s w] b) @ l \<rparr>"
        by blast
      with Pair Inr show ?thesis by (auto simp: logln_def)
    qed
  qed
qed

lemma started_snoc: "started ctx env (ss @ [s]) w = start_step ctx env (started ctx env ss w) s"
  by (simp add: started_def)

lemma started_links:
  "fst (started ctx env ss w) =
     map (\<lambda>i. svc_Link (ss ! i) (snd (started ctx env (take (Suc i) ss) w))) [0..<length ss]"
proof (induction ss rule: rev_induct)
  case Nil
  then show ?case by (simp add: started_def)
next
  case (snoc s ss)
  have "map (\<lambda>i. svc_Link ((ss @ [s]) ! i) (snd (started ctx env (take (Suc i) (ss @ [s])) w)))
          [0..<length ss] =
        map (\<lambda>i. svc_Link (ss ! i) (snd (started ctx env (take (Suc i) ss) w))) [0..<length ss]"
    by (rule map_cong) (auto simp: nth_append)
  with snoc show ?case
    by (simp add: started_snoc start_step_def Let_def)
qed


lemma RunServices_fail:
  assumes "k < length (services b)"
    and "\<forall>j<k. \<not> isl (fst (run_at ctx env (services b) w j))"
    and "run_at ctx env (services b) w k = (Inl e, w')"
  shows "fst (RunServices b ctx env w) = Some e \<and> snd (snd (RunServices b ctx env w)) = w'"
  using RunServices_loop_fail [of k "services b" ctx env "([], w)" e w' b] assms
  by (simp add: RunServices_def run_at_def started_def)

lemma RunServices_ok:
  assumes "\<forall>j<length (services b). \<not> isl (fst (run_at ctx env (services b) w j))"
  shows "fst (RunServices b ctx env w) = None \<and>
         snd (snd (RunServices b ctx env w)) = snd (started ctx env (services b) w)"
  using RunServices_loop_ok [of "services b" ctx env "([], w)" b] assms
  by (simp add: RunServices_def run_at_def started_def)

lemma RunServices_second_of_three:
  assumes "services b = [s1, s2, s3]"
    and "svc_Run s1 ctx env [] w = (Inr c1, w1)"
    and "svc_Run s2 ctx env [svc_Link s1 w1] w1 = (Inl e, w2)"
  shows "fst (RunServices b ctx env w) = Some e \<and> snd (snd (RunServices b ctx env w)) = w2"
  using assms by (simp add: RunServices_def)

text \<open>
  Claim C5. The start call of service \<open>j\<close> is \<open>run_at j\<close>: it is made after the services
  before it, in the declared order, with exactly their links (\<open>started\<close>; the third part
  spells the links out: one per service started before, in order, each read right after
  that service started). If the services before \<open>k\<close> start and service \<open>k\<close> fails,
  \<open>RunServices\<close> returns that error and the world is the one the failed call left: no
  later service is started. If all start, it returns no error. With three services of
  which the first starts and the second fails when given the single link of the first,
  the error of the second is returned and the world is the one its call left, so the
  third is not started. The box changes in its log only.
\<close>

theorem RunServices_order:
  "(\<forall>k e w'. k < length (services b) \<and>
       (\<forall>j<k. \<not> isl (fst (run_at ctx env (services b) w j))) \<and>
       run_at ctx env (services b) w k = (Inl e, w')
       \<longrightarrow> fst (RunServices b ctx env w) = Some e \<and>
           snd (snd (RunServices b ctx env w)) = w') \<and>
   ((\<forall>j<length (services b). \<not> isl (fst (run_at ctx env (services b) w j)))
       \<longrightarrow> fst (RunServices b ctx env w) = None \<and>
           snd (snd (RunServices b ctx env w)) = snd (started ctx env (services b) w)) \<and>
   (\<forall>j\<le>length (services b).
       fst (started ctx env (take j (services b)) w) =
         map (\<lambda>i. svc_Link (services b ! i)
                    (snd (started ctx env (take (Suc i) (services b)) w))) [0..<j]) \<and>
   (\<forall>s1 s2 s3 c1 w1 e w2.
       services b = [s1, s2, s3] \<and>
       svc_Run s1 ctx env [] w = (Inr c1, w1) \<and>
       svc_Run s2 ctx env [svc_Link s1 w1] w1 = (Inl e, w2)
       \<longrightarrow> fst (RunServices b ctx env w) = Some e \<and>
           snd (snd (RunServices b ctx env w)) = w2) \<and>
   (\<exists>l. fst (snd (RunServices b ctx env w)) = b \<lparr> logger := logger b @ l \<rparr>)"
proof -
  have links: "\<forall>j\<le>length (services b).
       fst (started ctx env (take j (services b)) w) =
         map (\<lambda>i. svc_Link (services b ! i)
                    (snd (started ctx env (take (Suc i) (services b)) w))) [0..<j]"
  proof (intro allI impI)
    fix j assume j: "j \<le> length (services b)"
    have "map (\<lambda>i. svc_Link (take j (services b) ! i)
                  (snd (started ctx env (take (Suc i) (take j (services b))) w))) [0..<j] =
          map (\<lambda>i. svc_Link (services b ! i)
                  (snd (started ctx env (take (Suc i) (services b)) w))) [0..<j]"
      by (rule map_cong) (auto simp: min_def)
    with started_links [of ctx env "take j (services b)" w] j
    show "fst (started ctx env (take j (services b)) w) =
         map (\<lambda>i. svc_Link (services b ! i)
                    (snd (started ctx env (take (Suc i) (services b)) w))) [0..<j]"
      by (simp add: min_def)
  qed
  have box: "\<exists>l. fst (snd (RunServices b ctx env w)) = b \<lparr> logger := logger b @ l \<rparr>"
    unfolding RunServices_def by (rule RunServices_loop_box)
  show ?thesis
    using RunServices_fail [of _ b ctx env w] RunServices_ok [of b ctx env w]
      RunServices_second_of_three [of b _ _ _ ctx env w] links box
    by blast
qed

theorem RunServices_order_witness:
  "services box3 = [scripted_service ''db'' None,
                    scripted_service ''cache'' (Some (OtherError ''no cache'')),
                    scripted_service ''web'' None] \<and>
   svc_Run (scripted_service ''db'' None) ctx0 env0 [] [] =
     (Inr \<lparr> Container_ID = ''id-db'', Container_Name = ''c-db'' \<rparr>, [ServiceRunCall ''db'' []]) \<and>
   svc_Run (scripted_service ''cache'' (Some (OtherError ''no cache''))) ctx0 env0
       [svc_Link (scripted_service ''db'' None) [ServiceRunCall ''db'' []]]
       [ServiceRunCall ''db'' []] =
     (Inl (OtherError ''no cache''),
      [ServiceRunCall ''db'' [], ServiceRunCall ''cache'' [''c-db:db'']]) \<and>
   fst (RunServices box3 ctx0 env0 []) = Some (OtherError ''no cache'') \<and>
   snd (snd (RunServices box3 ctx0 env0 [])) =
     [ServiceRunCall ''db'' [], ServiceRunCall ''cache'' [''c-db:db'']]"
proof -
  have 1: "services box3 = [scripted_service ''db'' None,
                    scripted_service ''cache'' (Some (OtherError ''no cache'')),
                    scripted_service ''web'' None]"
    by (simp add: box3_def box0_def)
  have 2: "svc_Run (scripted_service ''db'' None) ctx0 env0 [] [] =
     (Inr \<lparr> Container_ID = ''id-db'', Container_Name = ''c-db'' \<rparr>, [ServiceRunCall ''db'' []])"
    by (simp add: scripted_service_def)
  have 3: "svc_Run (scripted_service ''cache'' (Some (OtherError ''no cache''))) ctx0 env0
       [svc_Link (scripted_service ''db'' None) [ServiceRunCall ''db'' []]]
       [ServiceRunCall ''db'' []] =
     (Inl (OtherError ''no cache''),
      [ServiceRunCall ''db'' [], ServiceRunCall ''cache'' [''c-db:db'']])"
    by (simp add: scripted_service_def)
  from RunServices_order [of box3 ctx0 env0 "[]"] 1 2 3
  have "fst (RunServices box3 ctx0 env0 []) = Some (OtherError ''no cache'') \<and>
        snd (snd (RunServices box3 ctx0 env0 [])) =
          [ServiceRunCall ''db'' [], ServiceRunCall ''cache'' [''c-db:db'']]"
    by blast
  with 1 2 3 show ?thesis by blast
qed

subsection \<open>Clean\<close>

lemma Clean_collect_eq:
  "Clean_collect acc ss w = acc @ filter (\<lambda>i. i \<noteq> []) (map (\<lambda>service. svc_GetID service w) ss)"
  by (induction ss arbitrary: acc) (auto simp: Let_def)

lemma client_logln [simp]: "client (logln lvl fs xs b) = client b"
  by (simp add: logln_def)

lemma images_logln [simp]: "images (logln lvl fs xs b) = images b"
  by (simp add: logln_def)

lemma Clean_containers_ok:
  "client b = cl \<Longrightarrow>
   \<forall>j<length ids. fst (RemoveContainer cl
        \<lparr> RemoveContainerOptions_ID = ids ! j, RemoveVolumes = True, Force = True \<rparr>
        (removed cl (take j ids) w)) = None \<Longrightarrow>
   fst (Clean_containers b ids w) = None \<and>
   snd (snd (Clean_containers b ids w)) = removed cl ids w"
proof (induction ids arbitrary: b w)
  case Nil
  then show ?case by (simp add: removed_def)
next
  case (Cons c ids)
  let ?o = "\<lparr> RemoveContainerOptions_ID = c, RemoveVolumes = True, Force = True \<rparr>"
  from Cons.prems(2) [rule_format, of 0]
  have "fst (RemoveContainer cl ?o w) = None" by (simp add: removed_def)
  then obtain w1 where rm: "RemoveContainer cl ?o w = (None, w1)"
    by (cases "RemoveContainer cl ?o w") auto
  have "\<forall>j<length ids. fst (RemoveContainer cl
        \<lparr> RemoveContainerOptions_ID = ids ! j, RemoveVolumes = True, Force = True \<rparr>
        (removed cl (take j ids) w1)) = None"
    using Cons.prems(2) rm by (auto simp: removed_def dest: spec [of _ "Suc j" for j])
  from Cons.IH [OF _ this, of "logln Debug [(''Container'', FString c)] [''Removing container:'', c] b"]
    Cons.prems(1)
  show ?case by (simp add: rm removed_def Let_def)
qed

lemma Clean_containers_fail:
  "client b = cl \<Longrightarrow> k < length ids \<Longrightarrow>
   \<forall>j<k. fst (RemoveContainer cl
        \<lparr> RemoveContainerOptions_ID = ids ! j, RemoveVolumes = True, Force = True \<rparr>
        (removed cl (take j ids) w)) = None \<Longrightarrow>
   RemoveContainer cl
        \<lparr> RemoveContainerOptions_ID = ids ! k, RemoveVolumes = True, Force = True \<rparr>
        (removed cl (take k ids) w) = (Some e, w') \<Longrightarrow>
   fst (Clean_containers b ids w) = Some e \<and>
   snd (snd (Clean_containers b ids w)) = w'"
proof (induction ids arbitrary: b w k)
  case Nil
  then show ?case by simp
next
  case (Cons c ids)
  let ?o = "\<lparr> RemoveContainerOptions_ID = c, RemoveVolumes = True, Force = True \<rparr>"
  show ?case
  proof (cases k)
    case 0
    with Cons.prems(1,4) show ?thesis by (simp add: removed_def Let_def)
  next
    case (Suc k')
    from Cons.prems(3) [rule_format, of 0] Suc
    have "fst (RemoveContainer cl ?o w) = None" by (simp add: removed_def)
    then obtain w1 where rm: "RemoveContainer cl ?o w = (None, w1)"
      by (cases "RemoveContainer cl ?o w") auto
    have 1: "k' < length ids" using Cons.prems(2) Suc by simp
    have 2: "\<forall>j<k'. fst (RemoveContainer cl
        \<lparr> RemoveContainerOptions_ID = ids ! j, RemoveVolumes = True, Force = True \<rparr>
        (removed cl (take j ids) w1)) = None"
      using Cons.prems(3) rm Suc by (auto simp: removed_def dest: spec [of _ "Suc j" for j])
    have 3: "RemoveContainer cl
        \<lparr> RemoveContainerOptions_ID = ids ! k', RemoveVolumes = True, Force = True \<rparr>
        (removed cl (take k' ids) w1) = (Some e, w')"
      using Cons.prems(4) rm Suc by (simp add: removed_def)
    from Cons.IH [OF _ 1 2 3, of "logln Debug [(''Container'', FString c)] [''Removing container:'', c] b"]
      Cons.prems(1)
    show ?thesis by (simp add: rm Let_def)
  qed
qed

lemma Clean_containers_box:
  "\<exists>l. fst (snd (Clean_containers b ids w)) = b \<lparr> logger := logger b @ l \<rparr>"
proof (induction ids arbitrary: b w)
  case Nil
  have "b = b \<lparr> logger := logger b @ [] \<rparr>" by simp
  then show ?case by (metis Clean_containers.simps(1) fst_conv snd_conv)
next
  case (Cons c ids)
  let ?o = "\<lparr> RemoveContainerOptions_ID = c, RemoveVolumes = True, Force = True \<rparr>"
  let ?b = "logln Debug [(''Container'', FString c)] [''Removing container:'', c] b"
  show ?case
  proof (cases "RemoveContainer (client b) ?o w")
    case (Pair r w1)
    show ?thesis
    proof (cases r)
      case None
      from Cons.IH [of ?b w1]
      obtain l where "fst (snd (Clean_containers ?b ids w1)) = ?b \<lparr> logger := logger ?b @ l \<rparr>"
        by blast
      with Pair None show ?thesis by (auto simp: logln_def Let_def)
    next
      case (Some e)
      with Pair show ?thesis by (auto simp: logln_def Let_def)
    qed
  qed
qed

lemma Clean_images_world:
  "n \<le> length (images b) \<Longrightarrow>
   snd (Clean_images b n w) = images_removed (client b) (take n (images b)) w"
proof (induction n arbitrary: b w)
  case 0
  then show ?case by (simp add: images_removed_def)
next
  case (Suc n)
  let ?b = "logln Debug [(''Image'', FString (Image_ID (images b ! n)))]
                [''Removing image:'', Image_ID (images b ! n)] b"
  have n: "n < length (images b)" using Suc.prems by simp
  from Suc.IH [of ?b] n
  have "snd (Clean_images ?b n w1) = images_removed (client b) (take n (images b)) w1" for w1
    by simp
  then show ?case
    using n by (simp add: images_removed_def take_Suc_conv_app_nth split_def Let_def)
qed

lemma Clean_images_box:
  "\<exists>l. fst (Clean_images b n w) = b \<lparr> logger := logger b @ l \<rparr>"
proof (induction n arbitrary: b w)
  case 0
  have "b = b \<lparr> logger := logger b @ [] \<rparr>" by simp
  then show ?case by (metis Clean_images.simps(1) fst_conv)
next
  case (Suc n)
  let ?b = "logln Debug [(''Image'', FString (Image_ID (images b ! n)))]
                [''Removing image:'', Image_ID (images b ! n)] b"
  from Suc.IH [of ?b "snd (RemoveImage (client b) (Image_ID (images b ! n)) w)"]
  obtain l where "fst (Clean_images ?b n (snd (RemoveImage (client b) (Image_ID (images b ! n)) w)))
      = ?b \<lparr> logger := logger ?b @ l \<rparr>"
    by blast
  then show ?case by (auto simp: logln_def split_def Let_def)
qed


lemma Clean_unfold:
  "Clean b w =
     (case Clean_containers b (collected b w) w of
        (Some err, b, w) \<Rightarrow> (Some err, b, w)
      | (None, b, w) \<Rightarrow>
          (if \<not> ShouldCommit (options b)
           then (let (b, w) = Clean_images b (length (images b)) w in (None, b, w))
           else (None, b, w)))"
  by (simp add: Clean_def collected_def Clean_collect_eq Let_def split: option.splits)

lemma Clean_fail:
  assumes "k < length (collected b w)"
    and "\<forall>j<k. fst (remove_at (client b) (collected b w) w j) = None"
    and "remove_at (client b) (collected b w) w k = (Some e, w')"
  shows "fst (Clean b w) = Some e \<and> snd (snd (Clean b w)) = w'"
proof -
  from Clean_containers_fail [of b "client b" k "collected b w" w e w'] assms
  have "fst (Clean_containers b (collected b w) w) = Some e \<and>
        snd (snd (Clean_containers b (collected b w) w)) = w'"
    by (simp add: remove_at_def)
  then show ?thesis
    by (cases "Clean_containers b (collected b w) w") (auto simp: Clean_unfold)
qed

lemma Clean_ok:
  assumes "\<forall>j<length (collected b w). fst (remove_at (client b) (collected b w) w j) = None"
  shows "fst (Clean b w) = None \<and>
         snd (snd (Clean b w)) =
           (if ShouldCommit (options b) then removed (client b) (collected b w) w
            else images_removed (client b) (images b) (removed (client b) (collected b w) w))"
proof -
  from Clean_containers_ok [of b "client b" "collected b w" w] assms
  have ok: "fst (Clean_containers b (collected b w) w) = None"
    "snd (snd (Clean_containers b (collected b w) w)) = removed (client b) (collected b w) w"
    by (simp_all add: remove_at_def)
  from Clean_containers_box [of b "collected b w" w]
  obtain l where l: "fst (snd (Clean_containers b (collected b w) w)) = b \<lparr> logger := logger b @ l \<rparr>"
    by blast
  from ok l have cc: "Clean_containers b (collected b w) w =
      (None, b \<lparr> logger := logger b @ l \<rparr>, removed (client b) (collected b w) w)"
    by (cases "Clean_containers b (collected b w) w") auto
  from Clean_images_world [of "length (images b)" "b \<lparr> logger := logger b @ l \<rparr>"
      "removed (client b) (collected b w) w"]
  have "snd (Clean_images (b \<lparr> logger := logger b @ l \<rparr>) (length (images b))
               (removed (client b) (collected b w) w)) =
        images_removed (client b) (images b) (removed (client b) (collected b w) w)"
    by simp
  then show ?thesis
    by (simp add: Clean_unfold cc split_def)
qed

lemma Clean_box: "\<exists>l. fst (snd (Clean b w)) = b \<lparr> logger := logger b @ l \<rparr>"
proof -
  from Clean_containers_box [of b "collected b w" w]
  obtain l where l: "fst (snd (Clean_containers b (collected b w) w)) = b \<lparr> logger := logger b @ l \<rparr>"
    by blast
  let ?b = "b \<lparr> logger := logger b @ l \<rparr>"
  obtain r w1 where cc: "Clean_containers b (collected b w) w = (r, ?b, w1)"
    using l by (cases "Clean_containers b (collected b w) w") auto
  from Clean_images_box [of ?b "length (images b)" w1]
  obtain l' where l': "fst (Clean_images ?b (length (images b)) w1) = ?b \<lparr> logger := logger ?b @ l' \<rparr>"
    by blast
  show ?thesis
  proof (cases "r = None \<and> \<not> ShouldCommit (options b)")
    case True
    then have "fst (snd (Clean b w)) = fst (Clean_images ?b (length (images b)) w1)"
      using cc by (simp add: Clean_unfold split_def)
    then have "fst (snd (Clean b w)) = b \<lparr> logger := logger b @ (l @ l') \<rparr>"
      using l' by simp
    then show ?thesis by (rule exI [of _ "l @ l'"])
  next
    case False
    then have "fst (snd (Clean b w)) = b \<lparr> logger := logger b @ l \<rparr>"
      using cc by (cases r) (simp_all add: Clean_unfold)
    then show ?thesis by (rule exI [of _ l])
  qed
qed

lemma collected_box_full: "collected (box_full script) w = [''id-main'', ''id-db'', ''id-web'']"
  by (simp add: collected_def box_full_def box0_def scripted_service_def)

lemma client_box_full: "client (box_full script) = scripted_client script"
  by (simp add: box_full_def box0_def)

lemma RemoveContainer_scripted:
  "RemoveContainer (scripted_client script) opts w =
     (script (RemoveCall (RemoveContainerOptions_ID opts)),
      w @ [RemoveCall (RemoveContainerOptions_ID opts)])"
  by (simp add: scripted_client_def)

lemma RemoveImage_scripted:
  "RemoveImage (scripted_client script) i w = (script (RemoveImageCall i), w @ [RemoveImageCall i])"
  by (simp add: scripted_client_def)

text \<open>
  Claim C3. \<open>Clean\<close> removes the collected containers in order: the primary container
  first (if present), then the container of each service in list order. If the removals
  before the \<open>k\<close>-th succeed and the \<open>k\<close>-th fails, \<open>Clean\<close> returns that error at once:
  the world is the one the failed call left, so the remaining containers are not removed
  (and no image is). If every removal succeeds, \<open>Clean\<close> returns no error, and the world
  is the one after the removals when "should commit" is set, and otherwise the one after
  the removal of every image as well, the last committed first; what the image removals
  return has no part in the result. The box changes in its log only.
\<close>

theorem Clean_spec:
  "(\<forall>k e w'. k < length (collected b w) \<and>
       (\<forall>j<k. fst (remove_at (client b) (collected b w) w j) = None) \<and>
       remove_at (client b) (collected b w) w k = (Some e, w')
       \<longrightarrow> fst (Clean b w) = Some e \<and> snd (snd (Clean b w)) = w') \<and>
   ((\<forall>j<length (collected b w). fst (remove_at (client b) (collected b w) w j) = None)
       \<longrightarrow> fst (Clean b w) = None \<and>
           snd (snd (Clean b w)) =
             (if ShouldCommit (options b) then removed (client b) (collected b w) w
              else images_removed (client b) (images b)
                     (removed (client b) (collected b w) w))) \<and>
   (\<exists>l. fst (snd (Clean b w)) = b \<lparr> logger := logger b @ l \<rparr>)"
  using Clean_fail [of _ b w] Clean_ok [of b w] Clean_box [of b w] by blast

theorem Clean_spec_witness:
  "collected (box_full remove_db_fails) [] = [''id-main'', ''id-db'', ''id-web''] \<and>
   fst (remove_at (client (box_full remove_db_fails)) (collected (box_full remove_db_fails) []) [] 0)
     = None \<and>
   remove_at (client (box_full remove_db_fails)) (collected (box_full remove_db_fails) []) [] 1 =
     (Some (OtherError ''busy''), [RemoveCall ''id-main'', RemoveCall ''id-db'']) \<and>
   fst (Clean (box_full remove_db_fails) []) = Some (OtherError ''busy'') \<and>
   snd (snd (Clean (box_full remove_db_fails) [])) = [RemoveCall ''id-main'', RemoveCall ''id-db''] \<and>
   \<not> ShouldCommit (options (box_full image_removals_fail)) \<and>
   fst (Clean (box_full image_removals_fail) []) = None \<and>
   snd (snd (Clean (box_full image_removals_fail) [])) =
     [RemoveCall ''id-main'', RemoveCall ''id-db'', RemoveCall ''id-web'',
      RemoveImageCall ''img-2'', RemoveImageCall ''img-1'']"
proof -
  let ?b = "box_full remove_db_fails"
  let ?c = "box_full image_removals_fail"
  have 1: "(1::nat) < length (collected ?b [])"
    by (simp add: collected_box_full)
  have 2: "fst (remove_at (client ?b) (collected ?b []) [] 0) = None"
    by (simp add: collected_box_full client_box_full remove_at_def removed_def
        RemoveContainer_scripted remove_db_fails_def)
  then have 3: "\<forall>j<1. fst (remove_at (client ?b) (collected ?b []) [] j) = None"
    by simp
  have 4: "remove_at (client ?b) (collected ?b []) [] 1 =
     (Some (OtherError ''busy''), [RemoveCall ''id-main'', RemoveCall ''id-db''])"
    by (simp add: collected_box_full client_box_full remove_at_def removed_def
        RemoveContainer_scripted remove_db_fails_def)
  from Clean_spec [of ?b "[]"] 1 3 4
  have 5: "fst (Clean ?b []) = Some (OtherError ''busy'') \<and>
           snd (snd (Clean ?b [])) = [RemoveCall ''id-main'', RemoveCall ''id-db'']"
    by blast
  have 6: "\<forall>j<length (collected ?c []). fst (remove_at (client ?c) (collected ?c []) [] j) = None"
    by (simp add: collected_box_full client_box_full remove_at_def removed_def
        RemoveContainer_scripted image_removals_fail_def)
  have 7: "\<not> ShouldCommit (options ?c)"
    by (simp add: box_full_def box0_def opts0_def)
  have 8: "images_removed (client ?c) (images ?c) (removed (client ?c) (collected ?c []) []) =
     [RemoveCall ''id-main'', RemoveCall ''id-db'', RemoveCall ''id-web'',
      RemoveImageCall ''img-2'', RemoveImageCall ''img-1'']"
    by (simp add: collected_box_full client_box_full removed_def images_removed_def
        RemoveContainer_scripted RemoveImage_scripted) (simp add: box_full_def box0_def)
  from Clean_spec [of ?c "[]"] 6 7 8
  have 9: "fst (Clean ?c []) = None \<and>
           snd (snd (Clean ?c [])) =
             [RemoveCall ''id-main'', RemoveCall ''id-db'', RemoveCall ''id-web'',
              RemoveImageCall ''img-2'', RemoveImageCall ''img-1'']"
    by simp
  from collected_box_full [of remove_db_fails "[]"] 2 4 5 7 9 show ?thesis by blast
qed

subsection \<open>Stop\<close>

lemma stopped_Cons:
  "stopped cl (t # ts) w = stopped cl ts (snd (StopContainer cl (snd t w) 1 w))"
  by (simp add: stopped_def)

lemma stopped_snoc:
  "stopped cl (ts @ [t]) w =
     snd (StopContainer cl (snd t (stopped cl ts w)) 1 (stopped cl ts w))"
  by (simp add: stopped_def)

lemma stop_log_Nil: "stop_log cl [] w = []"
  by (simp add: stop_log_def)

lemma stop_log_Cons:
  "stop_log cl (t # ts) w =
     stop_entries (fst t) (snd t w) (snd t (snd (StopContainer cl (snd t w) 1 w)))
       (fst (StopContainer cl (snd t w) 1 w)) @
     stop_log cl ts (snd (StopContainer cl (snd t w) 1 w))"
proof -
  have "[0..<length (t # ts)] = 0 # map Suc [0..<length ts]"
    by (simp add: upt_conv_Cons map_Suc_upt del: upt_Suc)
  then show ?thesis
    by (simp add: stop_log_def stop_call_def stopped_Cons o_def stopped_def del: upt_Suc)
qed

lemma stop_log_snoc:
  "stop_log cl (ts @ [t]) w =
     stop_log cl ts w @
     stop_entries (fst t) (snd t (stopped cl ts w))
       (snd t (snd (StopContainer cl (snd t (stopped cl ts w)) 1 (stopped cl ts w))))
       (fst (StopContainer cl (snd t (stopped cl ts w)) 1 (stopped cl ts w)))"
  apply (simp add: stop_log_def stop_call_def nth_append)
  apply (rule arg_cong [where f = concat])
  apply (rule map_cong)
   apply simp_all
  done

lemma Stop_services_spec:
  "client b = cl \<Longrightarrow>
   Stop_services b ss w =
     (b \<lparr> logger := logger b @ stop_log cl (map (\<lambda>service. (True, svc_GetID service)) ss) w \<rparr>,
      stopped cl (map (\<lambda>service. (True, svc_GetID service)) ss) w)"
proof (induction ss arbitrary: b w)
  case Nil
  then show ?case by (simp add: stop_log_Nil stopped_def)
next
  case (Cons s ss)
  obtain r w1 where st: "StopContainer cl (svc_GetID s w) 1 w = (r, w1)"
    by (cases "StopContainer cl (svc_GetID s w) 1 w")
  show ?case
  proof (cases r)
    case None
    with Cons st show ?thesis
      by (simp add: stop_log_Cons stopped_Cons stop_entries_def logln_def)
  next
    case (Some e)
    with Cons st show ?thesis
      by (cases e) (simp_all add: stop_log_Cons stopped_Cons stop_entries_def logln_def)
  qed
qed

lemma stop_entries_levels: "e \<in> set (stop_entries k i i' r) \<Longrightarrow> level e = Debug \<or> level e = Warn"
proof (cases r)
  case None
  then show "e \<in> set (stop_entries k i i' r) \<Longrightarrow> level e = Debug \<or> level e = Warn"
    by (auto simp: stop_entries_def)
next
  case (Some err)
  then show "e \<in> set (stop_entries k i i' r) \<Longrightarrow> level e = Debug \<or> level e = Warn"
    by (cases err) (auto simp: stop_entries_def)
qed

lemma stop_entries_warn:
  "map level (stop_entries k i i' r) = (if r = None then [Debug] else [Debug, Warn])"
proof (cases r)
  case None
  then show ?thesis by (simp add: stop_entries_def)
next
  case (Some err)
  then show ?thesis by (cases err) (simp_all add: stop_entries_def)
qed

lemma stop_log_levels: "e \<in> set (stop_log cl ts w) \<Longrightarrow> level e = Debug \<or> level e = Warn"
  by (auto simp: stop_log_def dest: stop_entries_levels)


lemma stop_log_level_list:
  "map level (stop_log cl ts w) =
     concat (map (\<lambda>j. if fst (stop_call cl ts w j) = None then [Debug] else [Debug, Warn])
               [0..<length ts])"
  by (simp add: stop_log_def map_concat o_def stop_entries_warn)

lemma Stop_eq:
  "Stop b w = (b \<lparr> logger := logger b @ stop_log (client b) (stop_targets b) w \<rparr>,
               stopped (client b) (stop_targets b) w)"
proof -
  let ?ss = "map (\<lambda>service. (True, svc_GetID service)) (services b)"
  have sv: "Stop_services b (services b) w =
     (b \<lparr> logger := logger b @ stop_log (client b) ?ss w \<rparr>, stopped (client b) ?ss w)"
    by (rule Stop_services_spec) simp
  show ?thesis
  proof (cases "container b")
    case None
    then show ?thesis by (simp add: Stop_def sv stop_targets_def)
  next
    case (Some c)
    obtain r w1 where st: "StopContainer (client b) (Container_ID c) 1 (stopped (client b) ?ss w) = (r, w1)"
      by (cases "StopContainer (client b) (Container_ID c) 1 (stopped (client b) ?ss w)")
    show ?thesis
    proof (cases r)
      case None
      with Some st show ?thesis
        by (simp add: Stop_def sv stop_targets_def stop_log_snoc stopped_snoc stop_entries_def
            logln_def)
    next
      case (Some e)
      with \<open>container b = Some c\<close> st show ?thesis
        by (cases e) (simp_all add: Stop_def sv stop_targets_def stop_log_snoc stopped_snoc
            stop_entries_def logln_def)
    qed
  qed
qed

text \<open>
  Claim C4. For every engine, whatever its \<open>StopContainer\<close> returns: \<open>Stop\<close> makes one stop
  call for every service in list order and then one for the primary container if there is
  one (the world it leaves is \<open>stopped\<close>, the fold of the stop calls over all targets, so
  no call is skipped after a failure). It has no error to return: its result is the box
  and the world. Its log is \<open>stop_log\<close>: for each target a debug line, followed by exactly
  one warning when the call failed; nothing is logged above the level of a warning, and
  the warning for "already not running" carries no error.
\<close>

theorem Stop_spec:
  "Stop b w = (b \<lparr> logger := logger b @ stop_log (client b) (stop_targets b) w \<rparr>,
               stopped (client b) (stop_targets b) w) \<and>
   (\<forall>e \<in> set (stop_log (client b) (stop_targets b) w). level e = Debug \<or> level e = Warn) \<and>
   map level (stop_log (client b) (stop_targets b) w) =
     concat (map (\<lambda>j. if fst (stop_call (client b) (stop_targets b) w j) = None then [Debug]
                       else [Debug, Warn])
               [0..<length (stop_targets b)])"
  using Stop_eq [of b w] stop_log_levels [of _ "client b" "stop_targets b" w]
    stop_log_level_list [of "client b" "stop_targets b" w]
  by blast



theorem Stop_spec_witness:
  "stop_log (client (box_full stops_fail)) (stop_targets (box_full stops_fail)) [] =
     [LogEntry Debug [] ''Stopping service id-db'',
      LogEntry Warn [] ''Service container has already stopped.'',
      LogEntry Debug [] ''Stopping service id-web'',
      LogEntry Warn [] ''Service container has already stopped.'',
      LogEntry Debug [] ''Stopping container id-main'',
      LogEntry Warn [(''Error'', FError (OtherError ''engine down''))]
        ''Wasn't able to stop box container id-main''] \<and>
   snd (Stop (box_full stops_fail) []) =
     [StopCall ''id-db'', StopCall ''id-web'', StopCall ''id-main''] \<and>
   logger (fst (Stop (box_full stops_fail) [])) =
     [LogEntry Debug [] ''Stopping service id-db'',
      LogEntry Warn [] ''Service container has already stopped.'',
      LogEntry Debug [] ''Stopping service id-web'',
      LogEntry Warn [] ''Service container has already stopped.'',
      LogEntry Debug [] ''Stopping container id-main'',
      LogEntry Warn [(''Error'', FError (OtherError ''engine down''))]
        ''Wasn't able to stop box container id-main'']"
proof -
  let ?b = "box_full stops_fail"
  have t: "stop_targets ?b =
     [(True, svc_GetID (scripted_service ''db'' None)),
      (True, svc_GetID (scripted_service ''web'' None)),
      (False, \<lambda>w. ''id-main'')]"
    by (simp add: stop_targets_def box_full_def box0_def)
  have c: "StopContainer (client ?b) i g w = (stops_fail (StopCall i), w @ [StopCall i])" for i g w
    by (simp add: box_full_def box0_def scripted_client_def)
  have l: "stop_log (client ?b) (stop_targets ?b) [] =
     [LogEntry Debug [] ''Stopping service id-db'',
      LogEntry Warn [] ''Service container has already stopped.'',
      LogEntry Debug [] ''Stopping service id-web'',
      LogEntry Warn [] ''Service container has already stopped.'',
      LogEntry Debug [] ''Stopping container id-main'',
      LogEntry Warn [(''Error'', FError (OtherError ''engine down''))]
        ''Wasn't able to stop box container id-main'']"
    by (simp add: t c stop_log_Cons stop_log_Nil stop_entries_def stops_fail_def
        scripted_service_def)
  have w: "stopped (client ?b) (stop_targets ?b) [] =
     [StopCall ''id-db'', StopCall ''id-web'', StopCall ''id-main'']"
    by (simp add: t c stopped_def scripted_service_def)
  have "logger ?b = []"
    by (simp add: box_full_def box0_def)
  with Stop_spec [of ?b "[]"] l w show ?thesis
    by simp
qed

end
